theory Spec2Isabelle
  imports Complex_Main "HOL-Library.Sublist"
begin

section \<open>Numbers and vectors\<close>

text \<open>
  The program computes with JavaScript numbers (IEEE 754 doubles). They are modelled here
  as exact reals, so every statement below is about the idealised arithmetic of the
  formulas in the source; rounding is not modelled. Where the source can divide by zero
  (which in JavaScript yields an infinity or NaN, never an exception) the model makes that
  case an explicit branch.
\<close>

text \<open>
  \<open>THREE.Vector3\<close>, with the two library methods the source calls on it:
  \<open>length()\<close> is the Euclidean norm and \<open>distanceTo(v)\<close> the Euclidean distance.
\<close>

datatype Vector3 = Vector3 (vx: real) (vy: real) (vz: real)

definition vlength :: "Vector3 \<Rightarrow> real" where
  "vlength v = sqrt (vx v * vx v + vy v * vy v + vz v * vz v)"

definition distanceTo :: "Vector3 \<Rightarrow> Vector3 \<Rightarrow> real" where
  "distanceTo v w =
     (let dx = vx v - vx w; dy = vy v - vy w; dz = vz v - vz w
      in sqrt (dx * dx + dy * dy + dz * dz))"

text \<open>
  \<open>Math.atan2(y, x)\<close> on reals: the angle of the point \<open>(x, y)\<close> in \<open>(-pi, pi]\<close>,
  and \<open>0\<close> at the origin. (The reals have no signed zero; the value at the origin, which
  in JavaScript depends on the signs of the two zeros, is used by no statement below.)
\<close>

definition atan2 :: "real \<Rightarrow> real \<Rightarrow> real" where
  "atan2 b a =
     (if 0 < a then arctan (b / a)
      else if a < 0 then (if 0 \<le> b then arctan (b / a) + pi else arctan (b / a) - pi)
      else if 0 < b then pi / 2
      else if b < 0 then - (pi / 2)
      else 0)"

text \<open>
  The JavaScript remainder \<open>a % b\<close>: the quotient is truncated towards zero, so the
  result has the sign of the dividend. The source only uses it with the divisor \<open>360\<close>.
\<close>

definition js_rem :: "real \<Rightarrow> real \<Rightarrow> real" where
  "js_rem a b = a - b * of_int (if 0 \<le> a / b then \<lfloor>a / b\<rfloor> else \<lceil>a / b\<rceil>)"

section \<open>The coordinate projector (utils/hexagonUtils)\<close>

text \<open>
  \<^verbatim>\<open>
  export function latLonToVector3(lat, lon, radius = 1) {
    const phi = (90 - lat) * (Math.PI / 180);
    const theta = (lon + 180) * (Math.PI / 180);
    const x = -(radius * Math.sin(phi) * Math.cos(theta));
    const z = radius * Math.sin(phi) * Math.sin(theta);
    const y = radius * Math.cos(phi);
    return new THREE.Vector3(x, y, z);
  }
  \<close>
\<close>

definition latLonToVector3 :: "real \<Rightarrow> real \<Rightarrow> real \<Rightarrow> Vector3" where
  "latLonToVector3 lat lon radius =
     (let phi = (90 - lat) * (pi / 180);
          theta = (lon + 180) * (pi / 180);
          x = - (radius * sin phi * cos theta);
          z = radius * sin phi * sin theta;
          y = radius * cos phi
      in Vector3 x y z)"

text \<open>
  \<^verbatim>\<open>
  export function vector3ToLatLon(vector) {
    const lat = 90 - (Math.acos(vector.y / vector.length()) * 180) / Math.PI;
    const lon = ((Math.atan2(vector.z, -vector.x) * 180) / Math.PI + 180) % 360 - 180;
    return { lat, lon };
  }
  \<close>
  The result is the pair \<open>(lat, lon)\<close>. For the zero vector the source computes
  \<open>0 / 0\<close>, so its \<open>lat\<close> is NaN: the model returns \<open>None\<close> there.
\<close>

definition vector3ToLatLon :: "Vector3 \<Rightarrow> (real \<times> real) option" where
  "vector3ToLatLon v =
     (if vlength v = 0 then None
      else
        (let lat = 90 - (arccos (vy v / vlength v) * 180) / pi;
             lon = js_rem ((atan2 (vz v) (- vx v) * 180) / pi + 180) 360 - 180
         in Some (lat, lon)))"

section \<open>The overlap filter (components/Earth)\<close>

text \<open>
  A catalogue entry is the object literal \<open>{ lat, lon, size, color }\<close> of the source.
  The fields carry the prefix \<open>r_\<close> because \<open>size\<close> is a constant of HOL.
\<close>

record region =
  r_lat :: real
  r_lon :: real
  r_size :: real
  r_color :: string

text \<open>
  \<^verbatim>\<open>
  function areHexagonsTooClose(lat1, lon1, size1, lat2, lon2, size2) {
    const pos1 = latLonToVector3(lat1, lon1, 1);
    const pos2 = latLonToVector3(lat2, lon2, 1);
    const distance = pos1.distanceTo(pos2);
    const minDistance = (size1 + size2) * 0.9;
    return distance < minDistance;
  }
  \<close>
\<close>

definition areHexagonsTooClose ::
  "real \<Rightarrow> real \<Rightarrow> real \<Rightarrow> real \<Rightarrow> real \<Rightarrow> real \<Rightarrow> bool" where
  "areHexagonsTooClose lat1 lon1 size1 lat2 lon2 size2 =
     (let pos1 = latLonToVector3 lat1 lon1 1;
          pos2 = latLonToVector3 lat2 lon2 1;
          distance = distanceTo pos1 pos2;
          minDistance = (size1 + size2) * 0.9
      in distance < minDistance)"

text \<open>
  \<^verbatim>\<open>
  const filteredContinents = [];
  for (const continent of allContinents) {
    let overlaps = false;
    for (const existing of filteredContinents) {
      if (areHexagonsTooClose(continent.lat, continent.lon, continent.size,
                              existing.lat, existing.lon, existing.size)) {
        overlaps = true;
        break;
      }
    }
    if (!overlaps) {
      filteredContinents.push(continent);
    }
  }
  \<close>
  The inner loop is \<open>overlapsExisting\<close>, the outer loop \<open>filterLoop\<close>, whose first
  argument is the array \<open>filteredContinents\<close> built so far.
\<close>

fun overlapsExisting :: "region \<Rightarrow> region list \<Rightarrow> bool" where
  "overlapsExisting continent [] = False"
| "overlapsExisting continent (existing # rest) =
     (if areHexagonsTooClose (r_lat continent) (r_lon continent) (r_size continent)
           (r_lat existing) (r_lon existing) (r_size existing)
      then True
      else overlapsExisting continent rest)"

fun filterLoop :: "region list \<Rightarrow> region list \<Rightarrow> region list" where
  "filterLoop filteredContinents [] = filteredContinents"
| "filterLoop filteredContinents (continent # rest) =
     filterLoop
       (if \<not> overlapsExisting continent filteredContinents
        then filteredContinents @ [continent]
        else filteredContinents)
       rest"

definition filterContinents :: "region list \<Rightarrow> region list" where
  "filterContinents allContinents = filterLoop [] allContinents"

text \<open>The centre of a region on the unit sphere, and the distance the filter compares.\<close>

definition center :: "region \<Rightarrow> Vector3" where
  "center r = latLonToVector3 (r_lat r) (r_lon r) 1"

definition centerDistance :: "region \<Rightarrow> region \<Rightarrow> real" where
  "centerDistance a b = distanceTo (center a) (center b)"

text \<open>
  The pairwise condition the filter maintains on its accepted list: no two entries at
  different positions of the list are closer than \<open>0.9\<close> times the sum of their sizes.
\<close>

definition nonOverlapping :: "region list \<Rightarrow> bool" where
  "nonOverlapping rs \<longleftrightarrow>
     (\<forall>i<length rs. \<forall>j<length rs. i \<noteq> j \<longrightarrow>
        0.9 * (r_size (rs ! i) + r_size (rs ! j)) \<le> centerDistance (rs ! i) (rs ! j))"

section \<open>Biome classification (components/Earth)\<close>

text \<open>
  \<open>String.prototype.includes\<close>: the search string occurs somewhere in the string.
  (The name \<open>includes\<close> is a keyword of Isabelle.)
\<close>

fun js_includes :: "string \<Rightarrow> string \<Rightarrow> bool" where
  "js_includes [] search = (search = [])"
| "js_includes (c # cs) search = (prefix search (c # cs) \<or> js_includes cs search)"

text \<open>
  The type of a hexagon is one of the strings \<open>'beach'\<close>, \<open>'green'\<close>, \<open>'water'\<close>,
  \<open>'sand'\<close>, \<open>'white'\<close> (the info panel shows them as beach, forest, water, desert and
  snow).
  \<^verbatim>\<open>
  const isGreen = continent.color.includes('66BB6A') || continent.color.includes('81C784') ||
                  continent.color.includes('4CAF50') || continent.color.includes('388E3C') ||
                  continent.color.includes('9CCC65') || continent.color.includes('AED581') ||
                  continent.color.includes('8BC34A') || continent.color.includes('A5D6A7');
  const isBeach = continent.color.includes('FFFF00');
  const isWater = continent.color.includes('87CEEB') || continent.color.includes('B0E0E6');
  const isSand = continent.color.includes('F4A460') || continent.color.includes('DEB887') ||
                 continent.color.includes('D2B48C');
  const hexagonType = isBeach ? 'beach' : isGreen ? 'green' : isWater ? 'water'
                    : isSand ? 'sand' : 'white';
  \<close>
\<close>

datatype hexagonType = Beach | Green | Water | Sand | White

definition isGreen :: "string \<Rightarrow> bool" where
  "isGreen color \<longleftrightarrow>
     js_includes color ''66BB6A'' \<or> js_includes color ''81C784'' \<or>
     js_includes color ''4CAF50'' \<or> js_includes color ''388E3C'' \<or>
     js_includes color ''9CCC65'' \<or> js_includes color ''AED581'' \<or>
     js_includes color ''8BC34A'' \<or> js_includes color ''A5D6A7''"

definition isBeach :: "string \<Rightarrow> bool" where
  "isBeach color \<longleftrightarrow> js_includes color ''FFFF00''"

definition isWater :: "string \<Rightarrow> bool" where
  "isWater color \<longleftrightarrow> js_includes color ''87CEEB'' \<or> js_includes color ''B0E0E6''"

definition isSand :: "string \<Rightarrow> bool" where
  "isSand color \<longleftrightarrow>
     js_includes color ''F4A460'' \<or> js_includes color ''DEB887'' \<or> js_includes color ''D2B48C''"

definition hexagonTypeOf :: "string \<Rightarrow> hexagonType" where
  "hexagonTypeOf color =
     (if isBeach color then Beach
      else if isGreen color then Green
      else if isWater color then Water
      else if isSand color then Sand
      else White)"

section \<open>The procedural grid (utils/hexagonUtils)\<close>






text \<open>The latitude of band \<open>i\<close>; the source divides by \<open>latSteps\<close>, which is not zero
  wherever the model uses this.\<close>

definition bandLat :: "int \<Rightarrow> int \<Rightarrow> real" where
  "bandLat latSteps i = - 90 + (of_int i * 180) / of_int latSteps"



text \<open>The divisor of the longitude offset of a vertex, and the two vertex coordinates.\<close>

definition dLonDivisor :: "(real \<Rightarrow> real) \<Rightarrow> real \<Rightarrow> real" where
  "dLonDivisor cosLat lat = max (cosLat lat) 0.1"

definition vertexLat :: "real \<Rightarrow> real \<Rightarrow> nat \<Rightarrow> real" where
  "vertexLat hexRadius lat k =
     (let hexRadiusRad = hexRadius;
          angle = (pi / 3) * of_nat k;
          dLat = hexRadiusRad * cos angle
      in max (- 90) (min 90 (lat + dLat * 180 / pi)))"

definition vertexLon :: "(real \<Rightarrow> real) \<Rightarrow> real \<Rightarrow> real \<Rightarrow> real \<Rightarrow> nat \<Rightarrow> real" where
  "vertexLon cosLat hexRadius lat lon k =
     (let hexRadiusRad = hexRadius;
          angle = (pi / 3) * of_nat k;
          dLon = hexRadiusRad * sin angle / dLonDivisor cosLat lat
      in lon + dLon * 180 / pi)"

text \<open>
  A grid cell. The identifier \<open>hex-i-j\<close> is kept as the pair \<open>(i, j)\<close>.
\<close>

record hexagonData =
  h_id :: "int \<times> int"
  h_position :: Vector3
  h_vertices :: "Vector3 list"
  h_center :: Vector3
  h_lat :: real
  h_lon :: real

text \<open>The body of the inner loop: the cell pushed at band \<open>i\<close>, column \<open>j\<close>.\<close>

definition hexagonAt ::
  "(real \<Rightarrow> real) \<Rightarrow> real \<Rightarrow> int \<Rightarrow> int \<Rightarrow> int \<Rightarrow> int \<Rightarrow> hexagonData" where
  "hexagonAt cosLat hexRadius latSteps lonSteps i j =
     (let lat = bandLat latSteps i;
          lonStep = 360 / of_int lonSteps;
          offset = of_int (i mod 2) * (lonStep / 2);
          lon = - 180 + of_int j * lonStep + offset;
          center3D = latLonToVector3 lat lon 1;
          vertices3D = map (\<lambda>k. latLonToVector3 (vertexLat hexRadius lat k)
                                    (vertexLon cosLat hexRadius lat lon k) 1) [0..<6]
      in \<lparr>h_id = (i, j), h_position = center3D, h_vertices = vertices3D,
          h_center = center3D, h_lat = lat, h_lon = lon\<rparr>)"



section \<open>The rendered regions (components/Earth)\<close>

text \<open>
  The polar snow hexagons.
  \<^verbatim>\<open>
  const snow = [];
  for (let lon = -180; lon < 180; lon += 30) {
    for (let lat = 70; lat <= 85; lat += 8) {
      snow.push({ lat, lon, size: 0.12, color: '#FFFFFF' });
    }
  }
  for (let lon = -180; lon < 180; lon += 20) {
    for (let lat = -85; lat >= -60; lat -= 6) {
      snow.push({ lat, lon, size: 0.12, color: '#FFFFFF' });
    }
  }
  for (let lon = -180; lon < 180; lon += 15) {
    for (let lat = -70; lat >= -80; lat -= 5) {
      snow.push({ lat, lon, size: 0.13, color: '#FFFFFF' });
    }
  }
  return snow;
  \<close>
  Each loop nest is a pair of recursive functions over the (integer) loop variables.
\<close>

function northLatLoop :: "int \<Rightarrow> int \<Rightarrow> region list" where
  "northLatLoop lon lat =
     (if lat \<le> 85
      then \<lparr>r_lat = of_int lat, r_lon = of_int lon, r_size = 0.12, r_color = ''#FFFFFF''\<rparr>
           # northLatLoop lon (lat + 8)
      else [])"
  by pat_completeness auto
termination
  by (relation "measure (\<lambda>(lon, lat). nat (86 - lat))") auto

function northLonLoop :: "int \<Rightarrow> region list" where
  "northLonLoop lon =
     (if lon < 180 then northLatLoop lon 70 @ northLonLoop (lon + 30) else [])"
  by pat_completeness auto
termination
  by (relation "measure (\<lambda>lon. nat (180 - lon))") auto

function southLatLoop :: "int \<Rightarrow> int \<Rightarrow> region list" where
  "southLatLoop lon lat =
     (if lat \<ge> - 60
      then \<lparr>r_lat = of_int lat, r_lon = of_int lon, r_size = 0.12, r_color = ''#FFFFFF''\<rparr>
           # southLatLoop lon (lat - 6)
      else [])"
  by pat_completeness auto
termination
  by (relation "measure (\<lambda>(lon, lat). nat (lat + 61))") auto

function southLonLoop :: "int \<Rightarrow> region list" where
  "southLonLoop lon =
     (if lon < 180 then southLatLoop lon (- 85) @ southLonLoop (lon + 20) else [])"
  by pat_completeness auto
termination
  by (relation "measure (\<lambda>lon. nat (180 - lon))") auto

function extraLatLoop :: "int \<Rightarrow> int \<Rightarrow> region list" where
  "extraLatLoop lon lat =
     (if lat \<ge> - 80
      then \<lparr>r_lat = of_int lat, r_lon = of_int lon, r_size = 0.13, r_color = ''#FFFFFF''\<rparr>
           # extraLatLoop lon (lat - 5)
      else [])"
  by pat_completeness auto
termination
  by (relation "measure (\<lambda>(lon, lat). nat (lat + 81))") auto

function extraLonLoop :: "int \<Rightarrow> region list" where
  "extraLonLoop lon =
     (if lon < 180 then extraLatLoop lon (- 70) @ extraLonLoop (lon + 15) else [])"
  by pat_completeness auto
termination
  by (relation "measure (\<lambda>lon. nat (180 - lon))") auto

definition snowHexagons :: "region list" where
  "snowHexagons = northLonLoop (- 180) @ southLonLoop (- 180) @ extraLonLoop (- 180)"

text \<open>
  The curated catalogue \<open>allContinents\<close>: the 360 object literals of the source, in
  source order.
\<close>

definition allContinents :: "region list" where
  "allContinents = [
    \<lparr>r_lat = 42, r_lon = - 70, r_size = 0.15, r_color = ''#FFFF00''\<rparr>,
    \<lparr>r_lat = 38, r_lon = - 77, r_size = 0.14, r_color = ''#FFFF00''\<rparr>,
    \<lparr>r_lat = 32, r_lon = - 80, r_size = 0.15, r_color = ''#FFFF00''\<rparr>,
    \<lparr>r_lat = 28, r_lon = - 82, r_size = 0.14, r_color = ''#FFFF00''\<rparr>,
    \<lparr>r_lat = 26, r_lon = - 81, r_size = 0.14, r_color = ''#FFFF00''\<rparr>,
    \<lparr>r_lat = 34, r_lon = - 119, r_size = 0.15, r_color = ''#FFFF00''\<rparr>,
    \<lparr>r_lat = 33, r_lon = - 117, r_size = 0.14, r_color = ''#FFFF00''\<rparr>,
    \<lparr>r_lat = 22, r_lon = - 80, r_size = 0.15, r_color = ''#FFFF00''\<rparr>,
    \<lparr>r_lat = 18, r_lon = - 77, r_size = 0.14, r_color = ''#FFFF00''\<rparr>,
    \<lparr>r_lat = 12, r_lon = - 70, r_size = 0.15, r_color = ''#FFFF00''\<rparr>,
    \<lparr>r_lat = 51, r_lon = 1, r_size = 0.14, r_color = ''#FFFF00''\<rparr>,
    \<lparr>r_lat = 47, r_lon = - 2, r_size = 0.14, r_color = ''#FFFF00''\<rparr>,
    \<lparr>r_lat = 41, r_lon = 2, r_size = 0.15, r_color = ''#FFFF00''\<rparr>,
    \<lparr>r_lat = 37, r_lon = - 8, r_size = 0.14, r_color = ''#FFFF00''\<rparr>,
    \<lparr>r_lat = 41, r_lon = 12, r_size = 0.15, r_color = ''#FFFF00''\<rparr>,
    \<lparr>r_lat = 39, r_lon = 22, r_size = 0.14, r_color = ''#FFFF00''\<rparr>,
    \<lparr>r_lat = 36, r_lon = 28, r_size = 0.14, r_color = ''#FFFF00''\<rparr>,
    \<lparr>r_lat = 14, r_lon = 18, r_size = 0.14, r_color = ''#FFFF00''\<rparr>,
    \<lparr>r_lat = 6, r_lon = 3, r_size = 0.15, r_color = ''#FFFF00''\<rparr>,
    \<lparr>r_lat = - 4, r_lon = 15, r_size = 0.14, r_color = ''#FFFF00''\<rparr>,
    \<lparr>r_lat = 26, r_lon = 119, r_size = 0.15, r_color = ''#FFFF00''\<rparr>,
    \<lparr>r_lat = 21, r_lon = 113, r_size = 0.14, r_color = ''#FFFF00''\<rparr>,
    \<lparr>r_lat = 13, r_lon = 100, r_size = 0.15, r_color = ''#FFFF00''\<rparr>,
    \<lparr>r_lat = 1, r_lon = 104, r_size = 0.14, r_color = ''#FFFF00''\<rparr>,
    \<lparr>r_lat = - 27, r_lon = 153, r_size = 0.15, r_color = ''#FFFF00''\<rparr>,
    \<lparr>r_lat = - 16, r_lon = 145, r_size = 0.14, r_color = ''#FFFF00''\<rparr>,
    \<lparr>r_lat = - 12, r_lon = 130, r_size = 0.15, r_color = ''#FFFF00''\<rparr>,
    \<lparr>r_lat = - 3, r_lon = - 38, r_size = 0.14, r_color = ''#FFFF00''\<rparr>,
    \<lparr>r_lat = - 8, r_lon = - 35, r_size = 0.15, r_color = ''#FFFF00''\<rparr>,
    \<lparr>r_lat = - 12, r_lon = - 77, r_size = 0.14, r_color = ''#FFFF00''\<rparr>,
    \<lparr>r_lat = - 33, r_lon = - 71, r_size = 0.14, r_color = ''#FFFF00''\<rparr>,
    \<lparr>r_lat = 55, r_lon = - 110, r_size = 0.18, r_color = ''#66BB6A''\<rparr>,
    \<lparr>r_lat = 50, r_lon = - 100, r_size = 0.20, r_color = ''#66BB6A''\<rparr>,
    \<lparr>r_lat = 45, r_lon = - 95, r_size = 0.18, r_color = ''#81C784''\<rparr>,
    \<lparr>r_lat = 40, r_lon = - 100, r_size = 0.17, r_color = ''#66BB6A''\<rparr>,
    \<lparr>r_lat = 35, r_lon = - 110, r_size = 0.16, r_color = ''#66BB6A''\<rparr>,
    \<lparr>r_lat = 30, r_lon = - 85, r_size = 0.15, r_color = ''#A5D6A7''\<rparr>,
    \<lparr>r_lat = 25, r_lon = - 105, r_size = 0.15, r_color = ''#66BB6A''\<rparr>,
    \<lparr>r_lat = 20, r_lon = - 100, r_size = 0.12, r_color = ''#66BB6A''\<rparr>,
    \<lparr>r_lat = 45, r_lon = - 75, r_size = 0.14, r_color = ''#81C784''\<rparr>,
    \<lparr>r_lat = 50, r_lon = - 70, r_size = 0.13, r_color = ''#66BB6A''\<rparr>,
    \<lparr>r_lat = 40, r_lon = - 80, r_size = 0.15, r_color = ''#81C784''\<rparr>,
    \<lparr>r_lat = 35, r_lon = - 90, r_size = 0.14, r_color = ''#66BB6A''\<rparr>,
    \<lparr>r_lat = - 5, r_lon = - 55, r_size = 0.17, r_color = ''#9CCC65''\<rparr>,
    \<lparr>r_lat = - 10, r_lon = - 60, r_size = 0.18, r_color = ''#9CCC65''\<rparr>,
    \<lparr>r_lat = - 15, r_lon = - 50, r_size = 0.16, r_color = ''#AED581''\<rparr>,
    \<lparr>r_lat = - 20, r_lon = - 50, r_size = 0.15, r_color = ''#AED581''\<rparr>,
    \<lparr>r_lat = - 25, r_lon = - 65, r_size = 0.16, r_color = ''#AED581''\<rparr>,
    \<lparr>r_lat = - 30, r_lon = - 55, r_size = 0.15, r_color = ''#9CCC65''\<rparr>,
    \<lparr>r_lat = - 35, r_lon = - 60, r_size = 0.14, r_color = ''#9CCC65''\<rparr>,
    \<lparr>r_lat = - 40, r_lon = - 65, r_size = 0.13, r_color = ''#AED581''\<rparr>,
    \<lparr>r_lat = 55, r_lon = 0, r_size = 0.15, r_color = ''#4CAF50''\<rparr>,
    \<lparr>r_lat = 50, r_lon = 10, r_size = 0.14, r_color = ''#4CAF50''\<rparr>,
    \<lparr>r_lat = 45, r_lon = 20, r_size = 0.12, r_color = ''#66BB6A''\<rparr>,
    \<lparr>r_lat = 55, r_lon = 15, r_size = 0.13, r_color = ''#66BB6A''\<rparr>,
    \<lparr>r_lat = 50, r_lon = 5, r_size = 0.13, r_color = ''#66BB6A''\<rparr>,
    \<lparr>r_lat = 45, r_lon = 10, r_size = 0.12, r_color = ''#81C784''\<rparr>,
    \<lparr>r_lat = 20, r_lon = 10, r_size = 0.17, r_color = ''#388E3C''\<rparr>,
    \<lparr>r_lat = 15, r_lon = 15, r_size = 0.18, r_color = ''#388E3C''\<rparr>,
    \<lparr>r_lat = 10, r_lon = 20, r_size = 0.20, r_color = ''#388E3C''\<rparr>,
    \<lparr>r_lat = 5, r_lon = 35, r_size = 0.16, r_color = ''#4CAF50''\<rparr>,
    \<lparr>r_lat = 0, r_lon = 30, r_size = 0.18, r_color = ''#4CAF50''\<rparr>,
    \<lparr>r_lat = - 5, r_lon = 20, r_size = 0.15, r_color = ''#66BB6A''\<rparr>,
    \<lparr>r_lat = - 10, r_lon = 25, r_size = 0.15, r_color = ''#66BB6A''\<rparr>,
    \<lparr>r_lat = - 5, r_lon = 15, r_size = 0.14, r_color = ''#66BB6A''\<rparr>,
    \<lparr>r_lat = 5, r_lon = 10, r_size = 0.14, r_color = ''#388E3C''\<rparr>,
    \<lparr>r_lat = 0, r_lon = 5, r_size = 0.13, r_color = ''#4CAF50''\<rparr>,
    \<lparr>r_lat = 60, r_lon = 95, r_size = 0.20, r_color = ''#66BB6A''\<rparr>,
    \<lparr>r_lat = 55, r_lon = 100, r_size = 0.22, r_color = ''#66BB6A''\<rparr>,
    \<lparr>r_lat = 50, r_lon = 85, r_size = 0.18, r_color = ''#81C784''\<rparr>,
    \<lparr>r_lat = 45, r_lon = 110, r_size = 0.20, r_color = ''#81C784''\<rparr>,
    \<lparr>r_lat = 40, r_lon = 95, r_size = 0.17, r_color = ''#66BB6A''\<rparr>,
    \<lparr>r_lat = 35, r_lon = 105, r_size = 0.18, r_color = ''#66BB6A''\<rparr>,
    \<lparr>r_lat = 30, r_lon = 120, r_size = 0.16, r_color = ''#A5D6A7''\<rparr>,
    \<lparr>r_lat = 25, r_lon = 90, r_size = 0.18, r_color = ''#A5D6A7''\<rparr>,
    \<lparr>r_lat = 20, r_lon = 105, r_size = 0.15, r_color = ''#66BB6A''\<rparr>,
    \<lparr>r_lat = 55, r_lon = 115, r_size = 0.19, r_color = ''#81C784''\<rparr>,
    \<lparr>r_lat = 50, r_lon = 125, r_size = 0.17, r_color = ''#66BB6A''\<rparr>,
    \<lparr>r_lat = 45, r_lon = 100, r_size = 0.18, r_color = ''#81C784''\<rparr>,
    \<lparr>r_lat = 40, r_lon = 110, r_size = 0.16, r_color = ''#66BB6A''\<rparr>,
    \<lparr>r_lat = 35, r_lon = 90, r_size = 0.17, r_color = ''#A5D6A7''\<rparr>,
    \<lparr>r_lat = 30, r_lon = 100, r_size = 0.15, r_color = ''#66BB6A''\<rparr>,
    \<lparr>r_lat = 25, r_lon = 115, r_size = 0.16, r_color = ''#A5D6A7''\<rparr>,
    \<lparr>r_lat = - 20, r_lon = 125, r_size = 0.15, r_color = ''#8BC34A''\<rparr>,
    \<lparr>r_lat = - 25, r_lon = 135, r_size = 0.16, r_color = ''#8BC34A''\<rparr>,
    \<lparr>r_lat = - 30, r_lon = 145, r_size = 0.14, r_color = ''#9CCC65''\<rparr>,
    \<lparr>r_lat = - 20, r_lon = 140, r_size = 0.14, r_color = ''#8BC34A''\<rparr>,
    \<lparr>r_lat = - 25, r_lon = 120, r_size = 0.13, r_color = ''#9CCC65''\<rparr>,
    \<lparr>r_lat = 25, r_lon = - 80, r_size = 0.12, r_color = ''#66BB6A''\<rparr>,
    \<lparr>r_lat = 10, r_lon = - 75, r_size = 0.11, r_color = ''#81C784''\<rparr>,
    \<lparr>r_lat = 60, r_lon = - 150, r_size = 0.13, r_color = ''#66BB6A''\<rparr>,
    \<lparr>r_lat = 40, r_lon = 140, r_size = 0.14, r_color = ''#66BB6A''\<rparr>,
    \<lparr>r_lat = 20, r_lon = - 70, r_size = 0.12, r_color = ''#81C784''\<rparr>,
    \<lparr>r_lat = 15, r_lon = - 60, r_size = 0.11, r_color = ''#66BB6A''\<rparr>,
    \<lparr>r_lat = 30, r_lon = 50, r_size = 0.13, r_color = ''#66BB6A''\<rparr>,
    \<lparr>r_lat = 25, r_lon = 45, r_size = 0.12, r_color = ''#81C784''\<rparr>,
    \<lparr>r_lat = 35, r_lon = 70, r_size = 0.14, r_color = ''#66BB6A''\<rparr>,
    \<lparr>r_lat = 40, r_lon = 60, r_size = 0.13, r_color = ''#81C784''\<rparr>,
    \<lparr>r_lat = - 15, r_lon = - 45, r_size = 0.12, r_color = ''#9CCC65''\<rparr>,
    \<lparr>r_lat = - 5, r_lon = - 40, r_size = 0.11, r_color = ''#AED581''\<rparr>,
    \<lparr>r_lat = 40, r_lon = - 110, r_size = 0.13, r_color = ''#F4A460''\<rparr>,
    \<lparr>r_lat = 35, r_lon = - 105, r_size = 0.13, r_color = ''#F4A460''\<rparr>,
    \<lparr>r_lat = 30, r_lon = - 100, r_size = 0.13, r_color = ''#F4A460''\<rparr>,
    \<lparr>r_lat = 25, r_lon = - 95, r_size = 0.12, r_color = ''#DEB887''\<rparr>,
    \<lparr>r_lat = 20, r_lon = - 105, r_size = 0.11, r_color = ''#D2B48C''\<rparr>,
    \<lparr>r_lat = 15, r_lon = - 100, r_size = 0.11, r_color = ''#DEB887''\<rparr>,
    \<lparr>r_lat = 20, r_lon = - 95, r_size = 0.11, r_color = ''#F4A460''\<rparr>,
    \<lparr>r_lat = 15, r_lon = - 90, r_size = 0.10, r_color = ''#DEB887''\<rparr>,
    \<lparr>r_lat = 0, r_lon = - 80, r_size = 0.12, r_color = ''#F4A460''\<rparr>,
    \<lparr>r_lat = - 5, r_lon = - 75, r_size = 0.12, r_color = ''#F4A460''\<rparr>,
    \<lparr>r_lat = - 10, r_lon = - 70, r_size = 0.12, r_color = ''#F4A460''\<rparr>,
    \<lparr>r_lat = - 15, r_lon = - 75, r_size = 0.11, r_color = ''#DEB887''\<rparr>,
    \<lparr>r_lat = - 20, r_lon = - 70, r_size = 0.11, r_color = ''#D2B48C''\<rparr>,
    \<lparr>r_lat = - 25, r_lon = - 65, r_size = 0.11, r_color = ''#DEB887''\<rparr>,
    \<lparr>r_lat = - 30, r_lon = - 70, r_size = 0.10, r_color = ''#D2B48C''\<rparr>,
    \<lparr>r_lat = 35, r_lon = 5, r_size = 0.12, r_color = ''#F4A460''\<rparr>,
    \<lparr>r_lat = 30, r_lon = 10, r_size = 0.12, r_color = ''#F4A460''\<rparr>,
    \<lparr>r_lat = 25, r_lon = 15, r_size = 0.12, r_color = ''#F4A460''\<rparr>,
    \<lparr>r_lat = 20, r_lon = 10, r_size = 0.13, r_color = ''#DEB887''\<rparr>,
    \<lparr>r_lat = 15, r_lon = 5, r_size = 0.11, r_color = ''#D2B48C''\<rparr>,
    \<lparr>r_lat = 10, r_lon = 0, r_size = 0.11, r_color = ''#DEB887''\<rparr>,
    \<lparr>r_lat = 5, r_lon = 10, r_size = 0.11, r_color = ''#D2B48C''\<rparr>,
    \<lparr>r_lat = 0, r_lon = 5, r_size = 0.11, r_color = ''#DEB887''\<rparr>,
    \<lparr>r_lat = - 5, r_lon = 10, r_size = 0.10, r_color = ''#D2B48C''\<rparr>,
    \<lparr>r_lat = 30, r_lon = 0, r_size = 0.11, r_color = ''#F4A460''\<rparr>,
    \<lparr>r_lat = 25, r_lon = 5, r_size = 0.11, r_color = ''#DEB887''\<rparr>,
    \<lparr>r_lat = 20, r_lon = 0, r_size = 0.11, r_color = ''#D2B48C''\<rparr>,
    \<lparr>r_lat = 40, r_lon = 40, r_size = 0.12, r_color = ''#F4A460''\<rparr>,
    \<lparr>r_lat = 35, r_lon = 45, r_size = 0.12, r_color = ''#F4A460''\<rparr>,
    \<lparr>r_lat = 30, r_lon = 50, r_size = 0.12, r_color = ''#F4A460''\<rparr>,
    \<lparr>r_lat = 25, r_lon = 55, r_size = 0.11, r_color = ''#DEB887''\<rparr>,
    \<lparr>r_lat = 20, r_lon = 50, r_size = 0.11, r_color = ''#D2B48C''\<rparr>,
    \<lparr>r_lat = 25, r_lon = 45, r_size = 0.11, r_color = ''#DEB887''\<rparr>,
    \<lparr>r_lat = 30, r_lon = 40, r_size = 0.11, r_color = ''#D2B48C''\<rparr>,
    \<lparr>r_lat = 45, r_lon = 95, r_size = 0.13, r_color = ''#F4A460''\<rparr>,
    \<lparr>r_lat = 40, r_lon = 95, r_size = 0.13, r_color = ''#F4A460''\<rparr>,
    \<lparr>r_lat = 35, r_lon = 100, r_size = 0.13, r_color = ''#F4A460''\<rparr>,
    \<lparr>r_lat = 40, r_lon = 90, r_size = 0.12, r_color = ''#DEB887''\<rparr>,
    \<lparr>r_lat = 45, r_lon = 85, r_size = 0.12, r_color = ''#D2B48C''\<rparr>,
    \<lparr>r_lat = 35, r_lon = 90, r_size = 0.12, r_color = ''#DEB887''\<rparr>,
    \<lparr>r_lat = 30, r_lon = 95, r_size = 0.11, r_color = ''#D2B48C''\<rparr>,
    \<lparr>r_lat = - 10, r_lon = 130, r_size = 0.12, r_color = ''#F4A460''\<rparr>,
    \<lparr>r_lat = - 15, r_lon = 125, r_size = 0.12, r_color = ''#F4A460''\<rparr>,
    \<lparr>r_lat = - 20, r_lon = 120, r_size = 0.12, r_color = ''#F4A460''\<rparr>,
    \<lparr>r_lat = - 25, r_lon = 130, r_size = 0.11, r_color = ''#DEB887''\<rparr>,
    \<lparr>r_lat = - 30, r_lon = 125, r_size = 0.11, r_color = ''#D2B48C''\<rparr>,
    \<lparr>r_lat = - 10, r_lon = 135, r_size = 0.11, r_color = ''#DEB887''\<rparr>,
    \<lparr>r_lat = - 15, r_lon = 135, r_size = 0.11, r_color = ''#D2B48C''\<rparr>,
    \<lparr>r_lat = - 20, r_lon = 130, r_size = 0.11, r_color = ''#DEB887''\<rparr>,
    \<lparr>r_lat = 35, r_lon = - 120, r_size = 0.11, r_color = ''#DEB887''\<rparr>,
    \<lparr>r_lat = 30, r_lon = - 120, r_size = 0.11, r_color = ''#DEB887''\<rparr>,
    \<lparr>r_lat = 25, r_lon = - 110, r_size = 0.10, r_color = ''#D2B48C''\<rparr>,
    \<lparr>r_lat = 20, r_lon = - 105, r_size = 0.10, r_color = ''#DEB887''\<rparr>,
    \<lparr>r_lat = 45, r_lon = - 70, r_size = 0.11, r_color = ''#DEB887''\<rparr>,
    \<lparr>r_lat = 40, r_lon = - 75, r_size = 0.10, r_color = ''#D2B48C''\<rparr>,
    \<lparr>r_lat = 15, r_lon = - 90, r_size = 0.11, r_color = ''#DEB887''\<rparr>,
    \<lparr>r_lat = 10, r_lon = - 80, r_size = 0.11, r_color = ''#DEB887''\<rparr>,
    \<lparr>r_lat = 5, r_lon = - 75, r_size = 0.10, r_color = ''#D2B48C''\<rparr>,
    \<lparr>r_lat = 0, r_lon = - 80, r_size = 0.10, r_color = ''#DEB887''\<rparr>,
    \<lparr>r_lat = - 5, r_lon = - 85, r_size = 0.10, r_color = ''#D2B48C''\<rparr>,
    \<lparr>r_lat = - 10, r_lon = - 80, r_size = 0.10, r_color = ''#DEB887''\<rparr>,
    \<lparr>r_lat = 55, r_lon = 5, r_size = 0.11, r_color = ''#DEB887''\<rparr>,
    \<lparr>r_lat = 50, r_lon = 10, r_size = 0.11, r_color = ''#DEB887''\<rparr>,
    \<lparr>r_lat = 45, r_lon = 5, r_size = 0.10, r_color = ''#D2B48C''\<rparr>,
    \<lparr>r_lat = 40, r_lon = 0, r_size = 0.11, r_color = ''#D2B48C''\<rparr>,
    \<lparr>r_lat = 50, r_lon = - 5, r_size = 0.10, r_color = ''#DEB887''\<rparr>,
    \<lparr>r_lat = 20, r_lon = 15, r_size = 0.11, r_color = ''#DEB887''\<rparr>,
    \<lparr>r_lat = 15, r_lon = 30, r_size = 0.11, r_color = ''#DEB887''\<rparr>,
    \<lparr>r_lat = 10, r_lon = 35, r_size = 0.10, r_color = ''#D2B48C''\<rparr>,
    \<lparr>r_lat = 5, r_lon = 30, r_size = 0.10, r_color = ''#DEB887''\<rparr>,
    \<lparr>r_lat = 0, r_lon = 15, r_size = 0.10, r_color = ''#D2B48C''\<rparr>,
    \<lparr>r_lat = - 5, r_lon = 10, r_size = 0.10, r_color = ''#DEB887''\<rparr>,
    \<lparr>r_lat = 30, r_lon = 35, r_size = 0.11, r_color = ''#DEB887''\<rparr>,
    \<lparr>r_lat = 25, r_lon = 50, r_size = 0.11, r_color = ''#DEB887''\<rparr>,
    \<lparr>r_lat = 25, r_lon = 60, r_size = 0.11, r_color = ''#DEB887''\<rparr>,
    \<lparr>r_lat = 20, r_lon = 70, r_size = 0.10, r_color = ''#D2B48C''\<rparr>,
    \<lparr>r_lat = 15, r_lon = 75, r_size = 0.10, r_color = ''#DEB887''\<rparr>,
    \<lparr>r_lat = 10, r_lon = 80, r_size = 0.10, r_color = ''#D2B48C''\<rparr>,
    \<lparr>r_lat = 35, r_lon = 125, r_size = 0.11, r_color = ''#DEB887''\<rparr>,
    \<lparr>r_lat = 30, r_lon = 130, r_size = 0.11, r_color = ''#DEB887''\<rparr>,
    \<lparr>r_lat = 25, r_lon = 135, r_size = 0.10, r_color = ''#D2B48C''\<rparr>,
    \<lparr>r_lat = 20, r_lon = 120, r_size = 0.10, r_color = ''#DEB887''\<rparr>,
    \<lparr>r_lat = 15, r_lon = 125, r_size = 0.10, r_color = ''#D2B48C''\<rparr>,
    \<lparr>r_lat = - 15, r_lon = 140, r_size = 0.11, r_color = ''#DEB887''\<rparr>,
    \<lparr>r_lat = - 20, r_lon = 145, r_size = 0.10, r_color = ''#D2B48C''\<rparr>,
    \<lparr>r_lat = - 25, r_lon = 150, r_size = 0.10, r_color = ''#DEB887''\<rparr>,
    \<lparr>r_lat = - 10, r_lon = 145, r_size = 0.10, r_color = ''#D2B48C''\<rparr>,
    \<lparr>r_lat = 28, r_lon = - 102, r_size = 0.12, r_color = ''#F4A460''\<rparr>,
    \<lparr>r_lat = 32, r_lon = - 108, r_size = 0.12, r_color = ''#DEB887''\<rparr>,
    \<lparr>r_lat = - 8, r_lon = - 72, r_size = 0.11, r_color = ''#F4A460''\<rparr>,
    \<lparr>r_lat = - 12, r_lon = - 68, r_size = 0.11, r_color = ''#DEB887''\<rparr>,
    \<lparr>r_lat = 28, r_lon = 8, r_size = 0.11, r_color = ''#F4A460''\<rparr>,
    \<lparr>r_lat = 22, r_lon = 12, r_size = 0.11, r_color = ''#DEB887''\<rparr>,
    \<lparr>r_lat = 18, r_lon = 8, r_size = 0.10, r_color = ''#D2B48C''\<rparr>,
    \<lparr>r_lat = 12, r_lon = 2, r_size = 0.10, r_color = ''#DEB887''\<rparr>,
    \<lparr>r_lat = 38, r_lon = 48, r_size = 0.11, r_color = ''#F4A460''\<rparr>,
    \<lparr>r_lat = 33, r_lon = 52, r_size = 0.11, r_color = ''#DEB887''\<rparr>,
    \<lparr>r_lat = 42, r_lon = 92, r_size = 0.12, r_color = ''#F4A460''\<rparr>,
    \<lparr>r_lat = 38, r_lon = 88, r_size = 0.11, r_color = ''#DEB887''\<rparr>,
    \<lparr>r_lat = - 12, r_lon = 128, r_size = 0.11, r_color = ''#F4A460''\<rparr>,
    \<lparr>r_lat = - 18, r_lon = 123, r_size = 0.11, r_color = ''#DEB887''\<rparr>,
    \<lparr>r_lat = - 28, r_lon = 128, r_size = 0.10, r_color = ''#D2B48C''\<rparr>,
    \<lparr>r_lat = 35, r_lon = - 95, r_size = 0.14, r_color = ''#87CEEB''\<rparr>,
    \<lparr>r_lat = 30, r_lon = - 90, r_size = 0.14, r_color = ''#87CEEB''\<rparr>,
    \<lparr>r_lat = 25, r_lon = - 85, r_size = 0.13, r_color = ''#B0E0E6''\<rparr>,
    \<lparr>r_lat = 20, r_lon = - 80, r_size = 0.12, r_color = ''#87CEEB''\<rparr>,
    \<lparr>r_lat = 15, r_lon = - 75, r_size = 0.12, r_color = ''#B0E0E6''\<rparr>,
    \<lparr>r_lat = 10, r_lon = - 70, r_size = 0.13, r_color = ''#B0E0E6''\<rparr>,
    \<lparr>r_lat = 5, r_lon = - 75, r_size = 0.12, r_color = ''#87CEEB''\<rparr>,
    \<lparr>r_lat = 0, r_lon = - 70, r_size = 0.12, r_color = ''#B0E0E6''\<rparr>,
    \<lparr>r_lat = 55, r_lon = - 5, r_size = 0.13, r_color = ''#87CEEB''\<rparr>,
    \<lparr>r_lat = 50, r_lon = 0, r_size = 0.13, r_color = ''#87CEEB''\<rparr>,
    \<lparr>r_lat = 50, r_lon = 5, r_size = 0.12, r_color = ''#B0E0E6''\<rparr>,
    \<lparr>r_lat = 45, r_lon = 5, r_size = 0.12, r_color = ''#B0E0E6''\<rparr>,
    \<lparr>r_lat = 40, r_lon = 10, r_size = 0.12, r_color = ''#87CEEB''\<rparr>,
    \<lparr>r_lat = 35, r_lon = 15, r_size = 0.12, r_color = ''#B0E0E6''\<rparr>,
    \<lparr>r_lat = 30, r_lon = 20, r_size = 0.11, r_color = ''#87CEEB''\<rparr>,
    \<lparr>r_lat = 20, r_lon = 35, r_size = 0.12, r_color = ''#87CEEB''\<rparr>,
    \<lparr>r_lat = 15, r_lon = 40, r_size = 0.13, r_color = ''#87CEEB''\<rparr>,
    \<lparr>r_lat = 10, r_lon = 45, r_size = 0.12, r_color = ''#B0E0E6''\<rparr>,
    \<lparr>r_lat = 30, r_lon = 45, r_size = 0.13, r_color = ''#87CEEB''\<rparr>,
    \<lparr>r_lat = 25, r_lon = 50, r_size = 0.13, r_color = ''#87CEEB''\<rparr>,
    \<lparr>r_lat = 20, r_lon = 55, r_size = 0.12, r_color = ''#B0E0E6''\<rparr>,
    \<lparr>r_lat = 35, r_lon = 125, r_size = 0.14, r_color = ''#87CEEB''\<rparr>,
    \<lparr>r_lat = 30, r_lon = 120, r_size = 0.14, r_color = ''#87CEEB''\<rparr>,
    \<lparr>r_lat = 30, r_lon = 125, r_size = 0.13, r_color = ''#B0E0E6''\<rparr>,
    \<lparr>r_lat = 25, r_lon = 125, r_size = 0.13, r_color = ''#B0E0E6''\<rparr>,
    \<lparr>r_lat = 20, r_lon = 110, r_size = 0.12, r_color = ''#87CEEB''\<rparr>,
    \<lparr>r_lat = 15, r_lon = 115, r_size = 0.12, r_color = ''#B0E0E6''\<rparr>,
    \<lparr>r_lat = 10, r_lon = 110, r_size = 0.12, r_color = ''#87CEEB''\<rparr>,
    \<lparr>r_lat = - 5, r_lon = 105, r_size = 0.13, r_color = ''#87CEEB''\<rparr>,
    \<lparr>r_lat = - 10, r_lon = 110, r_size = 0.13, r_color = ''#87CEEB''\<rparr>,
    \<lparr>r_lat = - 5, r_lon = 115, r_size = 0.12, r_color = ''#B0E0E6''\<rparr>,
    \<lparr>r_lat = 0, r_lon = 120, r_size = 0.12, r_color = ''#87CEEB''\<rparr>,
    \<lparr>r_lat = - 15, r_lon = 150, r_size = 0.13, r_color = ''#87CEEB''\<rparr>,
    \<lparr>r_lat = - 20, r_lon = 150, r_size = 0.13, r_color = ''#87CEEB''\<rparr>,
    \<lparr>r_lat = - 15, r_lon = 145, r_size = 0.12, r_color = ''#B0E0E6''\<rparr>,
    \<lparr>r_lat = - 10, r_lon = 140, r_size = 0.12, r_color = ''#87CEEB''\<rparr>,
    \<lparr>r_lat = 20, r_lon = - 60, r_size = 0.12, r_color = ''#87CEEB''\<rparr>,
    \<lparr>r_lat = 15, r_lon = - 55, r_size = 0.11, r_color = ''#B0E0E6''\<rparr>,
    \<lparr>r_lat = 50, r_lon = - 20, r_size = 0.12, r_color = ''#87CEEB''\<rparr>,
    \<lparr>r_lat = 45, r_lon = - 15, r_size = 0.11, r_color = ''#B0E0E6''\<rparr>,
    \<lparr>r_lat = 40, r_lon = - 72, r_size = 0.13, r_color = ''#87CEEB''\<rparr>,
    \<lparr>r_lat = 36, r_lon = - 76, r_size = 0.13, r_color = ''#B0E0E6''\<rparr>,
    \<lparr>r_lat = 32, r_lon = - 79, r_size = 0.13, r_color = ''#87CEEB''\<rparr>,
    \<lparr>r_lat = 29, r_lon = - 81, r_size = 0.13, r_color = ''#B0E0E6''\<rparr>,
    \<lparr>r_lat = 27, r_lon = - 82, r_size = 0.12, r_color = ''#87CEEB''\<rparr>,
    \<lparr>r_lat = 36, r_lon = - 122, r_size = 0.13, r_color = ''#87CEEB''\<rparr>,
    \<lparr>r_lat = 32, r_lon = - 117, r_size = 0.13, r_color = ''#B0E0E6''\<rparr>,
    \<lparr>r_lat = 24, r_lon = - 82, r_size = 0.13, r_color = ''#87CEEB''\<rparr>,
    \<lparr>r_lat = 19, r_lon = - 81, r_size = 0.13, r_color = ''#B0E0E6''\<rparr>,
    \<lparr>r_lat = 17, r_lon = - 88, r_size = 0.12, r_color = ''#87CEEB''\<rparr>,
    \<lparr>r_lat = 11, r_lon = - 85, r_size = 0.13, r_color = ''#B0E0E6''\<rparr>,
    \<lparr>r_lat = 9, r_lon = - 80, r_size = 0.12, r_color = ''#87CEEB''\<rparr>,
    \<lparr>r_lat = - 2, r_lon = - 45, r_size = 0.13, r_color = ''#87CEEB''\<rparr>,
    \<lparr>r_lat = - 6, r_lon = - 35, r_size = 0.13, r_color = ''#B0E0E6''\<rparr>,
    \<lparr>r_lat = - 10, r_lon = - 38, r_size = 0.12, r_color = ''#87CEEB''\<rparr>,
    \<lparr>r_lat = - 14, r_lon = - 42, r_size = 0.12, r_color = ''#B0E0E6''\<rparr>,
    \<lparr>r_lat = - 23, r_lon = - 45, r_size = 0.13, r_color = ''#87CEEB''\<rparr>,
    \<lparr>r_lat = 52, r_lon = 4, r_size = 0.13, r_color = ''#87CEEB''\<rparr>,
    \<lparr>r_lat = 54, r_lon = 8, r_size = 0.13, r_color = ''#B0E0E6''\<rparr>,
    \<lparr>r_lat = 56, r_lon = 10, r_size = 0.12, r_color = ''#87CEEB''\<rparr>,
    \<lparr>r_lat = 59, r_lon = 10, r_size = 0.13, r_color = ''#B0E0E6''\<rparr>,
    \<lparr>r_lat = 43, r_lon = 5, r_size = 0.13, r_color = ''#87CEEB''\<rparr>,
    \<lparr>r_lat = 41, r_lon = 2, r_size = 0.13, r_color = ''#B0E0E6''\<rparr>,
    \<lparr>r_lat = 38, r_lon = - 9, r_size = 0.13, r_color = ''#87CEEB''\<rparr>,
    \<lparr>r_lat = 44, r_lon = 8, r_size = 0.13, r_color = ''#87CEEB''\<rparr>,
    \<lparr>r_lat = 40, r_lon = 14, r_size = 0.13, r_color = ''#B0E0E6''\<rparr>,
    \<lparr>r_lat = 38, r_lon = 15, r_size = 0.12, r_color = ''#87CEEB''\<rparr>,
    \<lparr>r_lat = 37, r_lon = 23, r_size = 0.13, r_color = ''#B0E0E6''\<rparr>,
    \<lparr>r_lat = 35, r_lon = 24, r_size = 0.13, r_color = ''#87CEEB''\<rparr>,
    \<lparr>r_lat = 12, r_lon = 3, r_size = 0.13, r_color = ''#87CEEB''\<rparr>,
    \<lparr>r_lat = 5, r_lon = 4, r_size = 0.13, r_color = ''#B0E0E6''\<rparr>,
    \<lparr>r_lat = - 2, r_lon = 10, r_size = 0.13, r_color = ''#87CEEB''\<rparr>,
    \<lparr>r_lat = - 6, r_lon = 12, r_size = 0.12, r_color = ''#B0E0E6''\<rparr>,
    \<lparr>r_lat = - 26, r_lon = 28, r_size = 0.13, r_color = ''#87CEEB''\<rparr>,
    \<lparr>r_lat = - 34, r_lon = 18, r_size = 0.13, r_color = ''#B0E0E6''\<rparr>,
    \<lparr>r_lat = 25, r_lon = 54, r_size = 0.13, r_color = ''#87CEEB''\<rparr>,
    \<lparr>r_lat = 24, r_lon = 54, r_size = 0.13, r_color = ''#B0E0E6''\<rparr>,
    \<lparr>r_lat = 19, r_lon = 72, r_size = 0.13, r_color = ''#87CEEB''\<rparr>,
    \<lparr>r_lat = 13, r_lon = 80, r_size = 0.13, r_color = ''#B0E0E6''\<rparr>,
    \<lparr>r_lat = 6, r_lon = 80, r_size = 0.13, r_color = ''#87CEEB''\<rparr>,
    \<lparr>r_lat = 31, r_lon = 121, r_size = 0.14, r_color = ''#87CEEB''\<rparr>,
    \<lparr>r_lat = 35, r_lon = 129, r_size = 0.13, r_color = ''#B0E0E6''\<rparr>,
    \<lparr>r_lat = 35, r_lon = 139, r_size = 0.14, r_color = ''#87CEEB''\<rparr>,
    \<lparr>r_lat = 14, r_lon = 121, r_size = 0.13, r_color = ''#87CEEB''\<rparr>,
    \<lparr>r_lat = 1, r_lon = 104, r_size = 0.13, r_color = ''#B0E0E6''\<rparr>,
    \<lparr>r_lat = - 19, r_lon = 147, r_size = 0.13, r_color = ''#87CEEB''\<rparr>,
    \<lparr>r_lat = - 23, r_lon = 151, r_size = 0.13, r_color = ''#B0E0E6''\<rparr>,
    \<lparr>r_lat = - 28, r_lon = 153, r_size = 0.13, r_color = ''#87CEEB''\<rparr>,
    \<lparr>r_lat = - 34, r_lon = 151, r_size = 0.13, r_color = ''#B0E0E6''\<rparr>,
    \<lparr>r_lat = - 38, r_lon = 145, r_size = 0.13, r_color = ''#87CEEB''\<rparr>,
    \<lparr>r_lat = - 17, r_lon = 178, r_size = 0.13, r_color = ''#87CEEB''\<rparr>,
    \<lparr>r_lat = - 21, r_lon = - 159, r_size = 0.13, r_color = ''#B0E0E6''\<rparr>,
    \<lparr>r_lat = 25, r_lon = - 77, r_size = 0.13, r_color = ''#87CEEB''\<rparr>,
    \<lparr>r_lat = 18, r_lon = - 66, r_size = 0.13, r_color = ''#B0E0E6''\<rparr>,
    \<lparr>r_lat = 12, r_lon = - 69, r_size = 0.13, r_color = ''#87CEEB''\<rparr>,
    \<lparr>r_lat = 55, r_lon = - 3, r_size = 0.13, r_color = ''#87CEEB''\<rparr>,
    \<lparr>r_lat = 53, r_lon = - 3, r_size = 0.13, r_color = ''#B0E0E6''\<rparr>,
    \<lparr>r_lat = 48, r_lon = - 4, r_size = 0.13, r_color = ''#87CEEB''\<rparr>,
    \<lparr>r_lat = 45, r_lon = - 83, r_size = 0.13, r_color = ''#87CEEB''\<rparr>,
    \<lparr>r_lat = 43, r_lon = - 79, r_size = 0.13, r_color = ''#B0E0E6''\<rparr>,
    \<lparr>r_lat = 42, r_lon = - 87, r_size = 0.13, r_color = ''#87CEEB''\<rparr>,
    \<lparr>r_lat = 44, r_lon = - 66, r_size = 0.13, r_color = ''#87CEEB''\<rparr>,
    \<lparr>r_lat = 41, r_lon = - 71, r_size = 0.13, r_color = ''#B0E0E6''\<rparr>,
    \<lparr>r_lat = 39, r_lon = - 74, r_size = 0.13, r_color = ''#87CEEB''\<rparr>,
    \<lparr>r_lat = 30, r_lon = - 87, r_size = 0.13, r_color = ''#87CEEB''\<rparr>,
    \<lparr>r_lat = 29, r_lon = - 95, r_size = 0.13, r_color = ''#B0E0E6''\<rparr>,
    \<lparr>r_lat = 27, r_lon = - 97, r_size = 0.13, r_color = ''#87CEEB''\<rparr>,
    \<lparr>r_lat = 48, r_lon = - 123, r_size = 0.13, r_color = ''#87CEEB''\<rparr>,
    \<lparr>r_lat = 46, r_lon = - 124, r_size = 0.13, r_color = ''#B0E0E6''\<rparr>,
    \<lparr>r_lat = 37, r_lon = - 122, r_size = 0.13, r_color = ''#87CEEB''\<rparr>,
    \<lparr>r_lat = 16, r_lon = - 88, r_size = 0.13, r_color = ''#87CEEB''\<rparr>,
    \<lparr>r_lat = 10, r_lon = - 84, r_size = 0.13, r_color = ''#B0E0E6''\<rparr>,
    \<lparr>r_lat = 8, r_lon = - 80, r_size = 0.13, r_color = ''#87CEEB''\<rparr>,
    \<lparr>r_lat = - 12, r_lon = - 77, r_size = 0.13, r_color = ''#87CEEB''\<rparr>,
    \<lparr>r_lat = - 16, r_lon = - 72, r_size = 0.13, r_color = ''#B0E0E6''\<rparr>,
    \<lparr>r_lat = - 33, r_lon = - 71, r_size = 0.13, r_color = ''#87CEEB''\<rparr>,
    \<lparr>r_lat = - 36, r_lon = - 73, r_size = 0.13, r_color = ''#B0E0E6''\<rparr>,
    \<lparr>r_lat = 60, r_lon = 5, r_size = 0.13, r_color = ''#87CEEB''\<rparr>,
    \<lparr>r_lat = 58, r_lon = 6, r_size = 0.13, r_color = ''#B0E0E6''\<rparr>,
    \<lparr>r_lat = 55, r_lon = 12, r_size = 0.13, r_color = ''#87CEEB''\<rparr>,
    \<lparr>r_lat = 57, r_lon = 11, r_size = 0.13, r_color = ''#B0E0E6''\<rparr>,
    \<lparr>r_lat = 60, r_lon = 25, r_size = 0.13, r_color = ''#87CEEB''\<rparr>,
    \<lparr>r_lat = 42, r_lon = 3, r_size = 0.13, r_color = ''#87CEEB''\<rparr>,
    \<lparr>r_lat = 39, r_lon = 3, r_size = 0.13, r_color = ''#B0E0E6''\<rparr>,
    \<lparr>r_lat = 36, r_lon = 5, r_size = 0.13, r_color = ''#87CEEB''\<rparr>,
    \<lparr>r_lat = 33, r_lon = 10, r_size = 0.13, r_color = ''#B0E0E6''\<rparr>,
    \<lparr>r_lat = 32, r_lon = 34, r_size = 0.13, r_color = ''#87CEEB''\<rparr>,
    \<lparr>r_lat = 35, r_lon = 33, r_size = 0.13, r_color = ''#B0E0E6''\<rparr>,
    \<lparr>r_lat = 15, r_lon = 38, r_size = 0.13, r_color = ''#87CEEB''\<rparr>,
    \<lparr>r_lat = 22, r_lon = 39, r_size = 0.13, r_color = ''#B0E0E6''\<rparr>,
    \<lparr>r_lat = - 4, r_lon = 39, r_size = 0.13, r_color = ''#87CEEB''\<rparr>,
    \<lparr>r_lat = - 6, r_lon = 39, r_size = 0.13, r_color = ''#B0E0E6''\<rparr>,
    \<lparr>r_lat = - 26, r_lon = 32, r_size = 0.13, r_color = ''#87CEEB''\<rparr>,
    \<lparr>r_lat = 26, r_lon = 50, r_size = 0.13, r_color = ''#87CEEB''\<rparr>,
    \<lparr>r_lat = 25, r_lon = 51, r_size = 0.13, r_color = ''#B0E0E6''\<rparr>,
    \<lparr>r_lat = 24, r_lon = 54, r_size = 0.13, r_color = ''#87CEEB''\<rparr>,
    \<lparr>r_lat = 4, r_lon = 73, r_size = 0.13, r_color = ''#87CEEB''\<rparr>,
    \<lparr>r_lat = - 4, r_lon = 55, r_size = 0.13, r_color = ''#B0E0E6''\<rparr>,
    \<lparr>r_lat = - 20, r_lon = 57, r_size = 0.13, r_color = ''#87CEEB''\<rparr>,
    \<lparr>r_lat = 22, r_lon = 114, r_size = 0.13, r_color = ''#87CEEB''\<rparr>,
    \<lparr>r_lat = 22, r_lon = 120, r_size = 0.13, r_color = ''#B0E0E6''\<rparr>,
    \<lparr>r_lat = 25, r_lon = 121, r_size = 0.13, r_color = ''#87CEEB''\<rparr>,
    \<lparr>r_lat = 13, r_lon = 100, r_size = 0.13, r_color = ''#87CEEB''\<rparr>,
    \<lparr>r_lat = 10, r_lon = 106, r_size = 0.13, r_color = ''#B0E0E6''\<rparr>,
    \<lparr>r_lat = 3, r_lon = 101, r_size = 0.13, r_color = ''#87CEEB''\<rparr>,
    \<lparr>r_lat = - 6, r_lon = 106, r_size = 0.13, r_color = ''#87CEEB''\<rparr>,
    \<lparr>r_lat = - 8, r_lon = 115, r_size = 0.13, r_color = ''#B0E0E6''\<rparr>,
    \<lparr>r_lat = 5, r_lon = 119, r_size = 0.13, r_color = ''#87CEEB''\<rparr>,
    \<lparr>r_lat = 14, r_lon = 121, r_size = 0.13, r_color = ''#B0E0E6''\<rparr>,
    \<lparr>r_lat = 21, r_lon = - 157, r_size = 0.13, r_color = ''#87CEEB''\<rparr>,
    \<lparr>r_lat = 13, r_lon = 144, r_size = 0.13, r_color = ''#87CEEB''\<rparr>,
    \<lparr>r_lat = 7, r_lon = 134, r_size = 0.13, r_color = ''#B0E0E6''\<rparr>,
    \<lparr>r_lat = - 12, r_lon = 130, r_size = 0.13, r_color = ''#87CEEB''\<rparr>,
    \<lparr>r_lat = - 32, r_lon = 115, r_size = 0.13, r_color = ''#B0E0E6''\<rparr>,
    \<lparr>r_lat = - 31, r_lon = 115, r_size = 0.13, r_color = ''#87CEEB''\<rparr>,
    \<lparr>r_lat = 28, r_lon = - 16, r_size = 0.13, r_color = ''#87CEEB''\<rparr>,
    \<lparr>r_lat = 32, r_lon = - 16, r_size = 0.13, r_color = ''#B0E0E6''\<rparr>,
    \<lparr>r_lat = 38, r_lon = - 28, r_size = 0.13, r_color = ''#87CEEB''\<rparr>
  ]"

text \<open>
  \<open>continents\<close> is the filtered catalogue. The scene renders one hexagon for each
  element of \<open>snowHexagons\<close> and then one for each element of \<open>continents\<close>; the snow
  hexagons do not pass through the filter.
  \<^verbatim>\<open>
  {snowHexagons.map((snow, i) => ( <CartoonContinent key={`snow-${i}`} ... /> ))}
  {continents.map((continent, i) => { ... <CartoonContinent key={`continent-${i}`} ... /> })}
  \<close>
\<close>

definition continents :: "region list" where
  "continents = filterContinents allContinents"

definition renderedRegions :: "region list" where
  "renderedRegions = snowHexagons @ continents"

text \<open>
  Spherical coordinates of a region's centre, as \<open>latLonToVector3\<close> computes them, and
  the inner product of two centres on the unit sphere (used in the proofs only).
\<close>

definition polar :: "region \<Rightarrow> real" where
  "polar r = (90 - r_lat r) * (pi / 180)"

definition azimuth :: "region \<Rightarrow> real" where
  "azimuth r = (r_lon r + 180) * (pi / 180)"

definition centerDot :: "region \<Rightarrow> region \<Rightarrow> real" where
  "centerDot a b =
     cos (polar a) * cos (polar b) + sin (polar a) * sin (polar b) * cos (azimuth a - azimuth b)"

section \<open>Properties of the projector\<close>

lemma latLonToVector3_equator_meridian: "latLonToVector3 0 0 1 = Vector3 1 0 0"
  by (simp add: latLonToVector3_def Let_def)

lemma vlength_unit_x: "vlength (Vector3 1 0 0) = 1"
  by (simp add: vlength_def)

text \<open>
  C4. For every latitude, longitude and radius, \<open>latLonToVector3\<close> returns the point
  with \<open>x = -radius * sin phi * cos theta\<close>, \<open>z = radius * sin phi * sin theta\<close> and
  \<open>y = radius * cos phi\<close>, where \<open>phi = (90 - lat) * pi / 180\<close> and
  \<open>theta = (lon + 180) * pi / 180\<close>.
\<close>

theorem latLonToVector3_formula:
  "vx (latLonToVector3 lat lon radius)
     = - radius * sin ((90 - lat) * pi / 180) * cos ((lon + 180) * pi / 180)
   \<and> vz (latLonToVector3 lat lon radius)
     = radius * sin ((90 - lat) * pi / 180) * sin ((lon + 180) * pi / 180)
   \<and> vy (latLonToVector3 lat lon radius)
     = radius * cos ((90 - lat) * pi / 180)"
  by (simp add: latLonToVector3_def Let_def)

lemma latLonToVector3_north: "latLonToVector3 90 lon 1 = Vector3 0 1 0"
  by (simp add: latLonToVector3_def Let_def)

lemma latLonToVector3_south: "latLonToVector3 (- 90) 0 1 = Vector3 0 (- 1) 0"
  by (simp add: latLonToVector3_def Let_def)

lemma latLonToVector3_antimeridian: "latLonToVector3 0 180 1 = Vector3 (- 1) 0 0"
  by (simp add: latLonToVector3_def Let_def)

text \<open>
  C3, as stated, fails: at latitude 0 and longitude 0 the source computes
  \<open>theta = pi\<close>, so \<open>x = -(sin (pi/2) * cos pi) = 1\<close>, not \<open>-1\<close>.
\<close>

theorem project_origin_not_minus_one:
  "vx (latLonToVector3 0 0 1) = 1 \<and> \<not> \<bar>vx (latLonToVector3 0 0 1) - (- 1)\<bar> < 1"
  by (simp add: latLonToVector3_equator_meridian)

text \<open>
  C3, amended. \<open>latLonToVector3 0 0 1\<close> is the point \<open>(1, 0, 0)\<close>; the point
  \<open>(-1, 0, 0)\<close> is the image of latitude 0, longitude 180; and latitude 90 is mapped to
  \<open>(0, 1, 0)\<close> whatever the longitude.
\<close>

theorem project_reference_points:
  "latLonToVector3 0 0 1 = Vector3 1 0 0
   \<and> latLonToVector3 0 180 1 = Vector3 (- 1) 0 0
   \<and> latLonToVector3 90 lon 1 = Vector3 0 1 0"
  by (simp add: latLonToVector3_equator_meridian latLonToVector3_antimeridian
      latLonToVector3_north)

text \<open>
  C1 (the round trip \<open>vector3ToLatLon (latLonToVector3 lat lon 1)\<close> returns
  \<open>(lat, lon)\<close>) fails on the code. At latitude 0, longitude 0 the projected point is
  \<open>(1, 0, 0)\<close> and \<open>atan2 0 (-1) = pi\<close>, so the longitude returned is
  \<open>(180 + 180) % 360 - 180 = -180\<close>: the round trip returns \<open>(0, -180)\<close>.
\<close>

theorem roundtrip_origin: "vector3ToLatLon (latLonToVector3 0 0 1) = Some (0, - 180)"
  by (simp add: latLonToVector3_equator_meridian vector3ToLatLon_def vlength_unit_x Let_def
      atan2_def js_rem_def)

lemma atan2_polar:
  assumes s: "0 < s" and t: "- pi < t" "t \<le> pi"
  shows "atan2 (s * sin t) (s * cos t) = t"
proof -
  have q: "s * sin t / (s * cos t) = tan t" using s by (simp add: tan_def)
  consider "- pi / 2 < t" "t < pi / 2" | "t = pi / 2" | "t = - pi / 2"
    | "pi / 2 < t" | "t < - pi / 2"
    by linarith
  then show ?thesis
  proof cases
    case 1
    then have "0 < cos t" by (intro cos_gt_zero_pi) simp_all
    then have "0 < s * cos t" using s by simp
    moreover have "arctan (tan t) = t" using 1 by (intro arctan_tan) simp_all
    ultimately show ?thesis unfolding atan2_def q by simp
  next
    case 2
    show ?thesis unfolding 2 using s by (simp add: atan2_def)
  next
    case 3
    have "sin (- pi / 2) = - 1" "cos (- pi / 2) = 0"
      using sin_minus [of "pi / 2"] cos_minus [of "pi / 2"] by simp_all
    then show ?thesis unfolding 3 using s by (simp add: atan2_def)
  next
    case 4
    have "0 < cos (pi - t)" using 4 t by (intro cos_gt_zero_pi) simp_all
    then have c: "s * cos t < 0" using s by (simp add: mult_pos_neg)
    have "0 \<le> sin t" using 4 t by (intro sin_ge_zero) simp_all
    then have sn: "0 \<le> s * sin t" using s by simp
    have "tan t = tan (t - pi)" using tan_periodic_pi [of "t - pi"] by simp
    moreover have "arctan (tan (t - pi)) = t - pi" using 4 t by (intro arctan_tan) simp_all
    ultimately show ?thesis using c sn unfolding atan2_def q by simp
  next
    case 5
    have "0 < cos (t + pi)" using 5 t by (intro cos_gt_zero_pi) simp_all
    then have c: "s * cos t < 0" using s by (simp add: mult_pos_neg)
    have "0 < sin (t + pi)" using 5 t by (intro sin_gt_zero) simp_all
    then have sn: "s * sin t < 0" using s by (simp add: mult_pos_neg)
    have "tan t = tan (t + pi)" using tan_periodic_pi [of t] by simp
    moreover have "arctan (tan (t + pi)) = t + pi" using 5 t by (intro arctan_tan) simp_all
    ultimately show ?thesis using c sn unfolding atan2_def q by simp
  qed
qed

lemma js_rem_small: "0 \<le> a \<Longrightarrow> a < 360 \<Longrightarrow> js_rem a 360 = a"
proof -
  assume a: "0 \<le> a" "a < 360"
  then have "0 \<le> a / 360" "a / 360 < 1" by simp_all
  then have "\<lfloor>a / 360\<rfloor> = 0" by linarith
  then show ?thesis using \<open>0 \<le> a / 360\<close> by (simp add: js_rem_def)
qed

lemma js_rem_360: "js_rem 360 360 = 0"
  by (simp add: js_rem_def)

lemma vlength_projection: "vlength (latLonToVector3 lat lon 1) = 1"
proof -
  let ?p = "(90 - lat) * (pi / 180)" and ?t = "(lon + 180) * (pi / 180)"
  have "(a * c) * (a * c) + b * b + (a * d) * (a * d) = a\<^sup>2 * (c\<^sup>2 + d\<^sup>2) + b\<^sup>2"
    for a b c d :: real
    by (simp add: power2_eq_square algebra_simps)
  from this [of "sin ?p" "cos ?t" "cos ?p" "sin ?t"]
  have "(sin ?p * cos ?t) * (sin ?p * cos ?t) + cos ?p * cos ?p
        + (sin ?p * sin ?t) * (sin ?p * sin ?t) = 1"
    by simp
  then show ?thesis unfolding vlength_def latLonToVector3_def Let_def by simp
qed

text \<open>
  The same happens everywhere away from the poles: the latitude is recovered, and the
  longitude comes back moved by 180 degrees.
\<close>

lemma roundtrip_shifts_longitude:
  assumes lat: "- 90 < lat" "lat < 90" and lon: "- 180 \<le> lon" "lon \<le> 180"
  shows "vector3ToLatLon (latLonToVector3 lat lon 1)
     = Some (lat, if lon < 0 then lon + 180 else lon - 180)"
proof -
  let ?p = "(90 - lat) * (pi / 180)" and ?t = "(lon + 180) * (pi / 180)"
  let ?v = "latLonToVector3 lat lon 1"
  have v: "vx ?v = - (sin ?p * cos ?t)" "vy ?v = cos ?p" "vz ?v = sin ?p * sin ?t"
    by (simp_all add: latLonToVector3_def Let_def)
  have len: "vlength ?v = 1" by (rule vlength_projection)
  have p: "0 < ?p" "?p < pi"
    using lat mult_strict_right_mono [of 0 "90 - lat" "pi / 180"]
      mult_strict_right_mono [of "90 - lat" 180 "pi / 180"] by simp_all
  have s: "0 < sin ?p" using p by (rule sin_gt_zero)
  have "arccos (cos ?p) = ?p" using p by (intro arccos_cos) simp_all
  then have latr: "90 - (arccos (vy ?v / vlength ?v) * 180) / pi = lat"
    by (simp add: v len)
  have lonr: "js_rem ((atan2 (vz ?v) (- vx ?v) * 180) / pi + 180) 360 - 180
      = (if lon < 0 then lon + 180 else lon - 180)"
  proof (cases "lon \<le> 0")
    case True
    have "?t \<le> 180 * (pi / 180)" using True by (intro mult_right_mono) simp_all
    then have t1: "?t \<le> pi" by simp
    have "0 * (pi / 180) \<le> ?t" using lon by (intro mult_right_mono) simp_all
    then have t0: "- pi < ?t" using pi_gt_zero by linarith
    have "atan2 (sin ?p * sin ?t) (sin ?p * cos ?t) = ?t"
      using s t0 t1 by (rule atan2_polar)
    then have a: "(atan2 (vz ?v) (- vx ?v) * 180) / pi + 180 = lon + 360"
      by (simp add: v)
    show ?thesis
    proof (cases "lon = 0")
      case True
      then show ?thesis unfolding a by (simp add: js_rem_360)
    next
      case False
      then have "lon < 0" using \<open>lon \<le> 0\<close> by simp
      then show ?thesis unfolding a using lon js_rem_small [of "lon + 360"] by simp
    qed
  next
    case False
    let ?u = "?t - 2 * pi"
    have u: "?u = (lon - 180) * (pi / 180)" by (simp add: algebra_simps)
    have "- 180 * (pi / 180) < (lon - 180) * (pi / 180)"
      using False by (intro mult_strict_right_mono) simp_all
    then have u0: "- pi < ?u" unfolding u by simp
    have "(lon - 180) * (pi / 180) \<le> 0 * (pi / 180)"
      using lon by (intro mult_right_mono) simp_all
    then have u1: "?u \<le> pi" unfolding u using pi_gt_zero by linarith
    have "atan2 (sin ?p * sin ?u) (sin ?p * cos ?u) = ?u"
      using s u0 u1 by (rule atan2_polar)
    moreover have "sin ?u = sin ?t" "cos ?u = cos ?t"
      using sin_periodic [of ?u] cos_periodic [of ?u] by simp_all
    ultimately have "atan2 (sin ?p * sin ?t) (sin ?p * cos ?t) = (lon - 180) * (pi / 180)"
      using u by simp
    then have a: "(atan2 (vz ?v) (- vx ?v) * 180) / pi + 180 = lon"
      by (simp add: v)
    show ?thesis unfolding a using False lon js_rem_small [of lon] by simp
  qed
  show ?thesis
    unfolding vector3ToLatLon_def Let_def latr lonr by (simp add: len)
qed

section \<open>Properties of the overlap filter\<close>

lemma tooClose_iff:
  "areHexagonsTooClose (r_lat a) (r_lon a) (r_size a) (r_lat b) (r_lon b) (r_size b)
     \<longleftrightarrow> centerDistance a b < 0.9 * (r_size a + r_size b)"
  by (simp add: areHexagonsTooClose_def centerDistance_def center_def Let_def mult.commute)

lemma overlapsExisting_iff:
  "overlapsExisting c es \<longleftrightarrow> (\<exists>e\<in>set es. centerDistance c e < 0.9 * (r_size c + r_size e))"
  by (induction es) (auto simp: tooClose_iff)

lemma filterLoop_snoc:
  "filterLoop acc (cs @ [c]) =
     (if \<not> overlapsExisting c (filterLoop acc cs) then filterLoop acc cs @ [c]
      else filterLoop acc cs)"
  by (induction cs arbitrary: acc) auto

lemma filterLoop_append: "filterLoop acc (cs @ ds) = filterLoop (filterLoop acc cs) ds"
  by (induction cs arbitrary: acc) auto

lemma filterLoop_prefix: "prefix acc (filterLoop acc cs)"
proof (induction cs arbitrary: acc)
  case Nil
  show ?case by simp
next
  case (Cons c cs)
  show ?case
  proof (cases "overlapsExisting c acc")
    case True
    then show ?thesis using Cons.IH [of acc] by simp
  next
    case False
    have "prefix acc (acc @ [c])" by simp
    also have "prefix (acc @ [c]) (filterLoop (acc @ [c]) cs)" by (rule Cons.IH)
    finally show ?thesis using False by simp
  qed
qed

lemma filterLoop_subseq: "\<exists>ys. filterLoop acc cs = acc @ ys \<and> subseq ys cs"
proof (induction cs arbitrary: acc)
  case Nil
  show ?case by simp
next
  case (Cons c cs)
  show ?case
  proof (cases "overlapsExisting c acc")
    case True
    from Cons.IH [of acc] obtain ys where "filterLoop acc cs = acc @ ys" "subseq ys cs"
      by blast
    then show ?thesis using True by auto
  next
    case False
    from Cons.IH [of "acc @ [c]"] obtain ys
      where "filterLoop (acc @ [c]) cs = (acc @ [c]) @ ys" "subseq ys cs" by blast
    then have "filterLoop acc (c # cs) = acc @ (c # ys) \<and> subseq (c # ys) (c # cs)"
      using False by simp
    then show ?thesis by blast
  qed
qed

lemma distanceTo_nonneg: "0 \<le> distanceTo v w"
  by (simp add: distanceTo_def Let_def)

lemma distanceTo_sym: "distanceTo v w = distanceTo w v"
proof -
  have "(a - b) * (a - b) = (b - a) * (b - a)" for a b :: real
    by (simp add: algebra_simps)
  then show ?thesis by (simp add: distanceTo_def Let_def)
qed

lemma centerDistance_sym: "centerDistance a b = centerDistance b a"
  by (simp add: centerDistance_def distanceTo_sym)

lemma nonOverlapping_snoc:
  assumes "nonOverlapping rs"
    and "\<forall>e\<in>set rs. 0.9 * (r_size c + r_size e) \<le> centerDistance c e"
  shows "nonOverlapping (rs @ [c])"
  unfolding nonOverlapping_def
proof (intro allI impI)
  fix i j
  assume i: "i < length (rs @ [c])" and j: "j < length (rs @ [c])" and ij: "i \<noteq> j"
  let ?xs = "rs @ [c]"
  consider "i < length rs" "j < length rs" | "i = length rs" "j < length rs"
    | "i < length rs" "j = length rs"
    using i j ij by force
  then show "0.9 * (r_size (?xs ! i) + r_size (?xs ! j)) \<le> centerDistance (?xs ! i) (?xs ! j)"
  proof cases
    case 1
    then show ?thesis using assms(1) ij by (simp add: nonOverlapping_def nth_append)
  next
    case 2
    then have "rs ! j \<in> set rs" by simp
    then show ?thesis using assms(2) 2 by (simp add: nth_append)
  next
    case 3
    then have "rs ! i \<in> set rs" by simp
    then have "0.9 * (r_size c + r_size (rs ! i)) \<le> centerDistance c (rs ! i)"
      using assms(2) by blast
    then show ?thesis using 3 by (simp add: nth_append centerDistance_sym add.commute)
  qed
qed

lemma filterLoop_nonOverlapping:
  "nonOverlapping acc \<Longrightarrow> nonOverlapping (filterLoop acc cs)"
proof (induction cs arbitrary: acc)
  case Nil
  then show ?case by simp
next
  case (Cons c cs)
  show ?case
  proof (cases "overlapsExisting c acc")
    case True
    then show ?thesis using Cons by simp
  next
    case False
    then have "\<forall>e\<in>set acc. 0.9 * (r_size c + r_size e) \<le> centerDistance c e"
      by (auto simp: overlapsExisting_iff not_less)
    then have "nonOverlapping (acc @ [c])"
      using Cons.prems by (rule nonOverlapping_snoc [rotated])
    then show ?thesis using False Cons.IH by simp
  qed
qed

lemma distanceTo_poles:
  "distanceTo (Vector3 0 1 0) (Vector3 0 (- 1) 0) = 2"
  "distanceTo (Vector3 0 (- 1) 0) (Vector3 0 1 0) = 2"
  by (simp_all add: distanceTo_def Let_def)

lemma distanceTo_equator:
  "distanceTo (Vector3 1 0 0) (Vector3 (- 1) 0 0) = 2"
  "distanceTo (Vector3 (- 1) 0 0) (Vector3 1 0 0) = 2"
  by (simp_all add: distanceTo_def Let_def)

lemma filterLoop_nonpositive:
  "\<forall>c\<in>set acc. r_size c \<le> 0 \<Longrightarrow> \<forall>c\<in>set cs. r_size c \<le> 0 \<Longrightarrow>
   filterLoop acc cs = acc @ cs"
proof (induction cs arbitrary: acc)
  case Nil
  show ?case by simp
next
  case (Cons c cs)
  have "\<not> overlapsExisting c acc"
  proof
    assume "overlapsExisting c acc"
    then obtain e where e: "e \<in> set acc" "centerDistance c e < 0.9 * (r_size c + r_size e)"
      by (auto simp: overlapsExisting_iff)
    have "r_size c \<le> 0" "r_size e \<le> 0" using Cons.prems e(1) by auto
    moreover have "0 \<le> centerDistance c e" by (simp add: centerDistance_def distanceTo_nonneg)
    ultimately show False using e(2) by simp
  qed
  moreover have "filterLoop (acc @ [c]) cs = (acc @ [c]) @ cs"
    using Cons.prems by (intro Cons.IH) auto
  ultimately show ?case by simp
qed

text \<open>
  C2, as stated, fails at the boundary: the filter rejects a candidate only when the
  distance is strictly below the threshold, so two regions at exactly the threshold are
  both accepted. The two poles are at distance 2, and \<open>0.9 * (10/9 + 10/9) = 2\<close>.
\<close>

theorem filter_accepts_poles_at_threshold:
  "filterContinents
     [\<lparr>r_lat = 90, r_lon = 0, r_size = 10 / 9, r_color = ''#FFFFFF''\<rparr>,
      \<lparr>r_lat = - 90, r_lon = 0, r_size = 10 / 9, r_color = ''#FFFFFF''\<rparr>]
   = [\<lparr>r_lat = 90, r_lon = 0, r_size = 10 / 9, r_color = ''#FFFFFF''\<rparr>,
      \<lparr>r_lat = - 90, r_lon = 0, r_size = 10 / 9, r_color = ''#FFFFFF''\<rparr>]
   \<and> \<not> 0.9 * (10 / 9 + 10 / 9)
        < distanceTo (latLonToVector3 90 0 1) (latLonToVector3 (- 90) 0 1)"
  by (simp add: filterContinents_def areHexagonsTooClose_def latLonToVector3_north
      latLonToVector3_south distanceTo_poles Let_def)

text \<open>
  C2, amended. For every candidate list, any two regions at different positions of the
  filter's output have projected centres (on the unit sphere) at a distance of at least
  \<open>0.9\<close> times the sum of their sizes.
\<close>

theorem filter_output_nonOverlapping:
  "\<forall>i<length (filterContinents cs). \<forall>j<length (filterContinents cs). i \<noteq> j \<longrightarrow>
     0.9 * (r_size (filterContinents cs ! i) + r_size (filterContinents cs ! j))
       \<le> distanceTo
            (latLonToVector3 (r_lat (filterContinents cs ! i)) (r_lon (filterContinents cs ! i)) 1)
            (latLonToVector3 (r_lat (filterContinents cs ! j)) (r_lon (filterContinents cs ! j)) 1)"
proof -
  have "nonOverlapping []" by (simp add: nonOverlapping_def)
  then have "nonOverlapping (filterContinents cs)"
    unfolding filterContinents_def by (rule filterLoop_nonOverlapping)
  then show ?thesis by (simp add: nonOverlapping_def centerDistance_def center_def)
qed

theorem filter_output_nonOverlapping_witness:
  "filterContinents
     [\<lparr>r_lat = 90, r_lon = 0, r_size = 0.15, r_color = ''#FFFF00''\<rparr>,
      \<lparr>r_lat = - 90, r_lon = 0, r_size = 0.14, r_color = ''#FFFFFF''\<rparr>]
   = [\<lparr>r_lat = 90, r_lon = 0, r_size = 0.15, r_color = ''#FFFF00''\<rparr>,
      \<lparr>r_lat = - 90, r_lon = 0, r_size = 0.14, r_color = ''#FFFFFF''\<rparr>]
   \<and> 0.9 * (0.15 + 0.14)
        \<le> distanceTo (latLonToVector3 90 0 1) (latLonToVector3 (- 90) 0 1)"
proof -
  let ?a = "\<lparr>r_lat = 90, r_lon = 0, r_size = 0.15, r_color = ''#FFFF00''\<rparr>"
  let ?b = "\<lparr>r_lat = - 90, r_lon = 0, r_size = 0.14, r_color = ''#FFFFFF''\<rparr>"
  have eq: "filterContinents [?a, ?b] = [?a, ?b]"
    by (simp add: filterContinents_def areHexagonsTooClose_def latLonToVector3_north
        latLonToVector3_south distanceTo_poles Let_def)
  have "0 < length (filterContinents [?a, ?b])" "1 < length (filterContinents [?a, ?b])"
    unfolding eq by simp_all
  with filter_output_nonOverlapping [of "[?a, ?b]"]
  have "0.9 * (r_size (filterContinents [?a, ?b] ! 0) + r_size (filterContinents [?a, ?b] ! 1))
       \<le> distanceTo
            (latLonToVector3 (r_lat (filterContinents [?a, ?b] ! 0))
               (r_lon (filterContinents [?a, ?b] ! 0)) 1)
            (latLonToVector3 (r_lat (filterContinents [?a, ?b] ! 1))
               (r_lon (filterContinents [?a, ?b] ! 1)) 1)"
    by (metis zero_neq_one)
  then have "0.9 * (r_size ([?a, ?b] ! 0) + r_size ([?a, ?b] ! 1))
       \<le> distanceTo
            (latLonToVector3 (r_lat ([?a, ?b] ! 0)) (r_lon ([?a, ?b] ! 0)) 1)
            (latLonToVector3 (r_lat ([?a, ?b] ! 1)) (r_lon ([?a, ?b] ! 1)) 1)"
    unfolding eq .
  then have "0.9 * (0.15 + 0.14)
        \<le> distanceTo (latLonToVector3 90 0 1) (latLonToVector3 (- 90) 0 1)"
    by simp
  with eq show ?thesis by (rule conjI)
qed

text \<open>
  C5, as stated, fails at the boundary: a candidate whose centre is exactly at the
  threshold from an accepted region is not farther than the threshold, yet it is accepted.
  The points at longitude 0 and 180 on the equator are at distance 2, and
  \<open>0.9 * (11/9 + 1) = 2\<close>.
\<close>

theorem filter_accepts_candidate_at_threshold:
  "filterContinents
     [\<lparr>r_lat = 0, r_lon = 0, r_size = 1, r_color = ''#87CEEB''\<rparr>,
      \<lparr>r_lat = 0, r_lon = 180, r_size = 11 / 9, r_color = ''#87CEEB''\<rparr>]
   = [\<lparr>r_lat = 0, r_lon = 0, r_size = 1, r_color = ''#87CEEB''\<rparr>,
      \<lparr>r_lat = 0, r_lon = 180, r_size = 11 / 9, r_color = ''#87CEEB''\<rparr>]
   \<and> \<not> 0.9 * (11 / 9 + 1)
        < distanceTo (latLonToVector3 0 180 1) (latLonToVector3 0 0 1)"
  by (simp add: filterContinents_def areHexagonsTooClose_def latLonToVector3_equator_meridian
      latLonToVector3_antimeridian distanceTo_equator Let_def)

text \<open>
  C5, amended. The filter processes the candidates in input order. A candidate is
  accepted if and only if, for every region accepted before it, the distance between the
  two projected centres is at least \<open>0.9\<close> times the sum of the two sizes (rejected
  candidates are never compared against). An accepted candidate is appended to the end of
  the output; the output for a longer input extends the output for its prefix, and the
  output is a subsequence of the input.
\<close>

theorem filter_greedy:
  "filterContinents [] = []
   \<and> filterContinents (cs @ [c]) =
       (if \<forall>e\<in>set (filterContinents cs). 0.9 * (r_size c + r_size e) \<le> centerDistance c e
        then filterContinents cs @ [c]
        else filterContinents cs)
   \<and> prefix (filterContinents cs) (filterContinents (cs @ ds))
   \<and> subseq (filterContinents cs) cs"
proof (intro conjI)
  show "filterContinents [] = []" by (simp add: filterContinents_def)
  show "filterContinents (cs @ [c]) =
       (if \<forall>e\<in>set (filterContinents cs). 0.9 * (r_size c + r_size e) \<le> centerDistance c e
        then filterContinents cs @ [c]
        else filterContinents cs)"
    unfolding filterContinents_def filterLoop_snoc overlapsExisting_iff
    by (auto simp: not_less)
  show "prefix (filterContinents cs) (filterContinents (cs @ ds))"
    unfolding filterContinents_def filterLoop_append by (rule filterLoop_prefix)
  show "subseq (filterContinents cs) cs"
    using filterLoop_subseq [of "[]" cs] by (auto simp: filterContinents_def)
qed

theorem filter_greedy_witness:
  "0.9 * (r_size \<lparr>r_lat = 0, r_lon = 180, r_size = 0.14, r_color = ''#87CEEB''\<rparr>
          + r_size \<lparr>r_lat = 0, r_lon = 0, r_size = 0.15, r_color = ''#FFFF00''\<rparr>)
     \<le> centerDistance \<lparr>r_lat = 0, r_lon = 180, r_size = 0.14, r_color = ''#87CEEB''\<rparr>
                        \<lparr>r_lat = 0, r_lon = 0, r_size = 0.15, r_color = ''#FFFF00''\<rparr>
   \<and> filterContinents
       ([\<lparr>r_lat = 0, r_lon = 0, r_size = 0.15, r_color = ''#FFFF00''\<rparr>]
        @ [\<lparr>r_lat = 0, r_lon = 180, r_size = 0.14, r_color = ''#87CEEB''\<rparr>])
     = [\<lparr>r_lat = 0, r_lon = 0, r_size = 0.15, r_color = ''#FFFF00''\<rparr>,
        \<lparr>r_lat = 0, r_lon = 180, r_size = 0.14, r_color = ''#87CEEB''\<rparr>]"
proof -
  let ?a = "\<lparr>r_lat = 0, r_lon = 0, r_size = 0.15, r_color = ''#FFFF00''\<rparr>"
  let ?b = "\<lparr>r_lat = 0, r_lon = 180, r_size = 0.14, r_color = ''#87CEEB''\<rparr>"
  have one: "filterContinents [?a] = [?a]"
    by (simp add: filterContinents_def)
  have near: "0.9 * (r_size ?b + r_size ?a) \<le> centerDistance ?b ?a"
    by (simp add: centerDistance_def center_def latLonToVector3_equator_meridian
        latLonToVector3_antimeridian distanceTo_equator)
  then have far: "\<forall>e\<in>set [?a]. 0.9 * (r_size ?b + r_size e) \<le> centerDistance ?b e"
    by simp
  have step: "filterContinents ([?a] @ [?b]) =
       (if \<forall>e\<in>set (filterContinents [?a]). 0.9 * (r_size ?b + r_size e) \<le> centerDistance ?b e
        then filterContinents [?a] @ [?b]
        else filterContinents [?a])"
    using filter_greedy [of "[?a]" ?b] by blast
  have far': "\<forall>e\<in>set (filterContinents [?a]).
      0.9 * (r_size ?b + r_size e) \<le> centerDistance ?b e"
    unfolding one by (rule far)
  have "filterContinents ([?a] @ [?b]) = filterContinents [?a] @ [?b]"
    by (rule trans [OF step if_P [OF far']])
  then have "filterContinents ([?a] @ [?b]) = [?a, ?b]"
    unfolding one by (simp only: append.simps)
  with near show ?thesis by (rule conjI)
qed

text \<open>
  C7, as stated, fails: the catalogue is not validated. A candidate of size zero and a
  candidate of negative size are both accepted, and nothing is signalled.
\<close>

theorem filter_keeps_nonpositive_sizes:
  "filterContinents
     [\<lparr>r_lat = 0, r_lon = 0, r_size = 0, r_color = ''#FFFFFF''\<rparr>,
      \<lparr>r_lat = 0, r_lon = 0, r_size = - 1, r_color = ''#FFFFFF''\<rparr>]
   = [\<lparr>r_lat = 0, r_lon = 0, r_size = 0, r_color = ''#FFFFFF''\<rparr>,
      \<lparr>r_lat = 0, r_lon = 0, r_size = - 1, r_color = ''#FFFFFF''\<rparr>]"
  by (simp add: filterContinents_def areHexagonsTooClose_def latLonToVector3_equator_meridian
      distanceTo_def Let_def)

text \<open>
  C7, amended. Building the filtered catalogue never fails and never inspects the sign of
  a size: the first candidate is always accepted, and a catalogue in which every candidate
  has a zero or negative size is returned unchanged.
\<close>

theorem filter_no_size_validation:
  "prefix [c] (filterContinents (c # cs))
   \<and> ((\<forall>r\<in>set rs. r_size r \<le> 0) \<longrightarrow> filterContinents rs = rs)"
proof
  have "filterContinents (c # cs) = filterLoop [c] cs"
    by (simp add: filterContinents_def)
  then show "prefix [c] (filterContinents (c # cs))"
    by (simp add: filterLoop_prefix)
  show "(\<forall>r\<in>set rs. r_size r \<le> 0) \<longrightarrow> filterContinents rs = rs"
    using filterLoop_nonpositive [of "[]" rs] by (simp add: filterContinents_def)
qed

theorem filter_no_size_validation_witness:
  "r_size \<lparr>r_lat = 42, r_lon = - 70, r_size = - 0.15, r_color = ''#FFFF00''\<rparr> \<le> 0
   \<and> r_size \<lparr>r_lat = 38, r_lon = - 77, r_size = 0, r_color = ''#FFFF00''\<rparr> \<le> 0
   \<and> filterContinents
       [\<lparr>r_lat = 42, r_lon = - 70, r_size = - 0.15, r_color = ''#FFFF00''\<rparr>,
        \<lparr>r_lat = 38, r_lon = - 77, r_size = 0, r_color = ''#FFFF00''\<rparr>]
     = [\<lparr>r_lat = 42, r_lon = - 70, r_size = - 0.15, r_color = ''#FFFF00''\<rparr>,
        \<lparr>r_lat = 38, r_lon = - 77, r_size = 0, r_color = ''#FFFF00''\<rparr>]"
proof -
  let ?a = "\<lparr>r_lat = 42, r_lon = - 70, r_size = - 0.15, r_color = ''#FFFF00''\<rparr>"
  let ?b = "\<lparr>r_lat = 38, r_lon = - 77, r_size = 0, r_color = ''#FFFF00''\<rparr>"
  have a: "r_size ?a \<le> 0" and b: "r_size ?b \<le> 0" by simp_all
  then have "\<forall>r\<in>set [?a, ?b]. r_size r \<le> 0" by simp
  then have "filterContinents [?a, ?b] = [?a, ?b]"
    using filter_no_size_validation [of _ _ "[?a, ?b]"] by blast
  with a b show ?thesis by (intro conjI)
qed

section \<open>Properties of the classification\<close>

lemma js_includes_iff: "js_includes s t \<longleftrightarrow> (\<exists>pre post. s = pre @ t @ post)"
proof (induction s)
  case Nil show ?case by auto
next
  case (Cons c cs)
  show ?case
  proof
    assume "js_includes (c # cs) t"
    then consider "prefix t (c # cs)" | "js_includes cs t" by auto
    then show "\<exists>pre post. c # cs = pre @ t @ post"
    proof cases
      case 1
      then obtain post where "c # cs = t @ post" by (auto simp: prefix_def)
      then have "c # cs = [] @ t @ post" by simp
      then show ?thesis by blast
    next
      case 2
      then obtain pre post where "cs = pre @ t @ post" using Cons.IH by blast
      then have "c # cs = (c # pre) @ t @ post" by simp
      then show ?thesis by blast
    qed
  next
    assume "\<exists>pre post. c # cs = pre @ t @ post"
    then obtain pre post where eq: "c # cs = pre @ t @ post" by blast
    show "js_includes (c # cs) t"
    proof (cases pre)
      case Nil
      then have "prefix t (c # cs)" using eq by (simp add: prefix_def)
      then show ?thesis by simp
    next
      case (Cons p pre')
      then have "cs = pre' @ t @ post" using eq by simp
      then have "js_includes cs t" using Cons.IH by blast
      then show ?thesis by simp
    qed
  qed
qed

text \<open>
  C6. The classification checks the beach marker first, then the forest greens, then the
  water blues, then the desert tans, and gives \<open>'white'\<close> (snow) to a colour that matches
  none of them. In particular a colour string that contains the beach marker and a water
  blue is classified as beach.
\<close>

theorem classification_precedence:
  "(isBeach color \<longrightarrow> hexagonTypeOf color = Beach)
   \<and> (\<not> isBeach color \<and> isGreen color \<longrightarrow> hexagonTypeOf color = Green)
   \<and> (\<not> isBeach color \<and> \<not> isGreen color \<and> isWater color \<longrightarrow> hexagonTypeOf color = Water)
   \<and> (\<not> isBeach color \<and> \<not> isGreen color \<and> \<not> isWater color \<and> isSand color
        \<longrightarrow> hexagonTypeOf color = Sand)
   \<and> (\<not> isBeach color \<and> \<not> isGreen color \<and> \<not> isWater color \<and> \<not> isSand color
        \<longrightarrow> hexagonTypeOf color = White)
   \<and> (js_includes color ''FFFF00''
        \<and> (js_includes color ''87CEEB'' \<or> js_includes color ''B0E0E6'')
        \<longrightarrow> hexagonTypeOf color = Beach)"
  by (simp add: hexagonTypeOf_def isBeach_def)

theorem classification_precedence_witness:
  "js_includes ''#FFFF0087CEEB'' ''FFFF00'' \<and> js_includes ''#FFFF0087CEEB'' ''87CEEB''
   \<and> hexagonTypeOf ''#FFFF0087CEEB'' = Beach
   \<and> \<not> isBeach ''#66BB6A'' \<and> isGreen ''#66BB6A'' \<and> hexagonTypeOf ''#66BB6A'' = Green
   \<and> \<not> isBeach ''#B0E0E6'' \<and> \<not> isGreen ''#B0E0E6'' \<and> isWater ''#B0E0E6''
   \<and> hexagonTypeOf ''#B0E0E6'' = Water
   \<and> \<not> isBeach ''#F4A460'' \<and> \<not> isGreen ''#F4A460'' \<and> \<not> isWater ''#F4A460''
   \<and> isSand ''#F4A460'' \<and> hexagonTypeOf ''#F4A460'' = Sand
   \<and> \<not> isBeach ''#FFFFFF'' \<and> \<not> isGreen ''#FFFFFF'' \<and> \<not> isWater ''#FFFFFF''
   \<and> \<not> isSand ''#FFFFFF'' \<and> hexagonTypeOf ''#FFFFFF'' = White"
proof -
  have b: "js_includes ''#FFFF0087CEEB'' ''FFFF00''" "js_includes ''#FFFF0087CEEB'' ''87CEEB''"
    by simp_all
  have g: "\<not> isBeach ''#66BB6A''" "isGreen ''#66BB6A''"
    by (simp_all add: isBeach_def isGreen_def)
  have w: "\<not> isBeach ''#B0E0E6''" "\<not> isGreen ''#B0E0E6''" "isWater ''#B0E0E6''"
    by (simp_all add: isBeach_def isGreen_def isWater_def)
  have s: "\<not> isBeach ''#F4A460''" "\<not> isGreen ''#F4A460''" "\<not> isWater ''#F4A460''"
    "isSand ''#F4A460''"
    by (simp_all add: isBeach_def isGreen_def isWater_def isSand_def)
  have n: "\<not> isBeach ''#FFFFFF''" "\<not> isGreen ''#FFFFFF''" "\<not> isWater ''#FFFFFF''"
    "\<not> isSand ''#FFFFFF''"
    by (simp_all add: isBeach_def isGreen_def isWater_def isSand_def)
  have "hexagonTypeOf ''#FFFF0087CEEB'' = Beach"
    using classification_precedence [of "''#FFFF0087CEEB''"] b by blast
  moreover have "hexagonTypeOf ''#66BB6A'' = Green"
    using classification_precedence [of "''#66BB6A''"] g by blast
  moreover have "hexagonTypeOf ''#B0E0E6'' = Water"
    using classification_precedence [of "''#B0E0E6''"] w by blast
  moreover have "hexagonTypeOf ''#F4A460'' = Sand"
    using classification_precedence [of "''#F4A460''"] s by blast
  moreover have "hexagonTypeOf ''#FFFFFF'' = White"
    using classification_precedence [of "''#FFFFFF''"] n by blast
  ultimately show ?thesis using b g w s n by blast
qed

section \<open>Properties of the procedural grid\<close>

lemma hexagonAt_vertices:
  "h_vertices (hexagonAt cosLat hexRadius latSteps lonSteps i j) =
     map (\<lambda>k. latLonToVector3
                 (vertexLat hexRadius (bandLat latSteps i) k)
                 (vertexLon cosLat hexRadius (bandLat latSteps i)
                    (h_lon (hexagonAt cosLat hexRadius latSteps lonSteps i j)) k) 1) [0..<6]"
  by (simp add: hexagonAt_def Let_def)



















section \<open>Geometry of the unit sphere\<close>

lemma sphere_algebra:
  fixes sa ka sb kb ca za cb zb :: real
  assumes "sa\<^sup>2 + ka\<^sup>2 = 1" "sb\<^sup>2 + kb\<^sup>2 = 1" "ca\<^sup>2 + za\<^sup>2 = 1" "cb\<^sup>2 + zb\<^sup>2 = 1"
  shows "(- (sa * ca) - - (sb * cb)) * (- (sa * ca) - - (sb * cb))
         + (ka - kb) * (ka - kb) + (sa * za - sb * zb) * (sa * za - sb * zb)
       = 2 - 2 * (ka * kb + sa * sb * (ca * cb + za * zb))"
proof -
  have "(- (sa * ca) - - (sb * cb)) * (- (sa * ca) - - (sb * cb))
         + (ka - kb) * (ka - kb) + (sa * za - sb * zb) * (sa * za - sb * zb)
      = sa\<^sup>2 * (ca\<^sup>2 + za\<^sup>2) + sb\<^sup>2 * (cb\<^sup>2 + zb\<^sup>2) + ka\<^sup>2 + kb\<^sup>2
        - 2 * (ka * kb + sa * sb * (ca * cb + za * zb))"
    by (simp add: power2_eq_square algebra_simps)
  also have "\<dots> = (sa\<^sup>2 + ka\<^sup>2) + (sb\<^sup>2 + kb\<^sup>2) - 2 * (ka * kb + sa * sb * (ca * cb + za * zb))"
    by (simp add: assms(3,4))
  also have "\<dots> = 2 - 2 * (ka * kb + sa * sb * (ca * cb + za * zb))"
    by (simp add: assms(1,2))
  finally show ?thesis .
qed

lemma centerDistance_sq: "(centerDistance a b)\<^sup>2 = 2 - 2 * centerDot a b"
proof -
  let ?sa = "sin (polar a)" and ?ka = "cos (polar a)"
  let ?sb = "sin (polar b)" and ?kb = "cos (polar b)"
  let ?ca = "cos (azimuth a)" and ?za = "sin (azimuth a)"
  let ?cb = "cos (azimuth b)" and ?zb = "sin (azimuth b)"
  let ?E = "(- (?sa * ?ca) - - (?sb * ?cb)) * (- (?sa * ?ca) - - (?sb * ?cb))
         + (?ka - ?kb) * (?ka - ?kb) + (?sa * ?za - ?sb * ?zb) * (?sa * ?za - ?sb * ?zb)"
  have d: "centerDistance a b = sqrt ?E"
    by (simp add: centerDistance_def center_def latLonToVector3_def distanceTo_def Let_def
        polar_def azimuth_def)
  have E: "?E = 2 - 2 * (?ka * ?kb + ?sa * ?sb * (?ca * ?cb + ?za * ?zb))"
    by (rule sphere_algebra) simp_all
  have "0 \<le> ?E" by (intro add_nonneg_nonneg) simp_all
  then have "(centerDistance a b)\<^sup>2 = ?E" unfolding d by simp
  also have "\<dots> = 2 - 2 * centerDot a b"
    unfolding E centerDot_def cos_diff by simp
  finally show ?thesis .
qed

lemma centerDistance_nonneg: "0 \<le> centerDistance a b"
  by (simp add: centerDistance_def distanceTo_nonneg)

lemma far_from_dot:
  assumes "t\<^sup>2 \<le> 2 - 2 * centerDot a b"
  shows "t \<le> centerDistance a b"
proof (cases "0 \<le> t")
  case True
  have "t\<^sup>2 \<le> (centerDistance a b)\<^sup>2" using assms by (simp add: centerDistance_sq)
  then show ?thesis using centerDistance_nonneg [of a b] True
    by (simp add: power2_le_iff_abs_le)
next
  case False
  then show ?thesis using centerDistance_nonneg [of a b] by linarith
qed

lemma close_from_dot:
  assumes "0 \<le> t" "2 - 2 * centerDot a b \<le> t\<^sup>2"
  shows "centerDistance a b \<le> t"
proof -
  have "(centerDistance a b)\<^sup>2 \<le> t\<^sup>2" using assms by (simp add: centerDistance_sq)
  then show ?thesis using assms(1) centerDistance_nonneg [of a b]
    by (simp add: power2_le_iff_abs_le)
qed

lemma cos_lower: "1 - x\<^sup>2 / 2 \<le> cos (x::real)"
proof -
  have "cos x = 1 - 2 * (sin (x / 2))\<^sup>2"
    using cos_double_sin [of "x / 2"] by simp
  moreover have "(sin (x / 2))\<^sup>2 \<le> (x / 2)\<^sup>2"
    using abs_sin_le_one abs_sin_x_le_abs_x [of "x / 2"] by (simp add: power2_le_iff_abs_le abs_le_square_iff [symmetric])
  ultimately show ?thesis by (simp add: power2_eq_square)
qed

lemma pi_sq_le: "pi\<^sup>2 \<le> 16"
proof -
  have "pi\<^sup>2 \<le> 4\<^sup>2" using pi_less_4 pi_ge_zero by (intro power_mono) simp_all
  then show ?thesis by simp
qed

lemma one_minus_cos_le: "2 * (1 - cos (x::real)) \<le> x\<^sup>2"
  using cos_lower [of x] by simp

lemma dist_sq_upper:
  "2 - 2 * centerDot a b \<le> (polar a - polar b)\<^sup>2 + (azimuth a - azimuth b)\<^sup>2"
proof -
  let ?d = "azimuth a - azimuth b"
  have "sin (polar a) * sin (polar b) \<le> 1"
    using abs_sin_le_one [of "polar a"] abs_sin_le_one [of "polar b"]
    by (metis abs_le_D1 abs_mult mult_le_one abs_ge_zero)
  moreover have "0 \<le> 1 - cos ?d" by simp
  ultimately have "sin (polar a) * sin (polar b) * (1 - cos ?d) \<le> 1 * (1 - cos ?d)"
    by (rule mult_right_mono)
  moreover have "centerDot a b
      = cos (polar a - polar b) - sin (polar a) * sin (polar b) * (1 - cos ?d)"
    by (simp add: centerDot_def cos_diff algebra_simps)
  ultimately have "2 - 2 * centerDot a b
      \<le> 2 * (1 - cos (polar a - polar b)) + 2 * (1 - cos ?d)" by simp
  also have "\<dots> \<le> (polar a - polar b)\<^sup>2 + ?d\<^sup>2"
    by (intro add_mono one_minus_cos_le)
  finally show ?thesis .
qed

lemma degrees_sq: "(d * (pi / 180))\<^sup>2 \<le> d\<^sup>2 * 16 / 32400"
proof -
  have "(d * (pi / 180))\<^sup>2 = d\<^sup>2 * pi\<^sup>2 / 32400" by (simp add: power2_eq_square)
  also have "\<dots> \<le> d\<^sup>2 * 16 / 32400"
  proof -
    have "d\<^sup>2 * pi\<^sup>2 \<le> d\<^sup>2 * 16" by (intro mult_left_mono pi_sq_le) simp
    then show ?thesis by (rule divide_right_mono) simp
  qed
  finally show ?thesis .
qed

lemma polar_diff: "(90 - x) * k - (90 - y) * k = (y - x) * (k::real)"
  by (simp add: algebra_simps)

lemma azimuth_diff: "(x + 180) * k - (y + 180) * k = (x - y) * (k::real)"
  by (simp add: algebra_simps)

lemma close_in_degrees:
  assumes "0 \<le> t"
    and "((r_lat a - r_lat b)\<^sup>2 + (r_lon a - r_lon b)\<^sup>2) * 16 / 32400 \<le> t\<^sup>2"
  shows "centerDistance a b \<le> t"
proof (rule close_from_dot [OF assms(1)])
  have p: "polar a - polar b = (r_lat b - r_lat a) * (pi / 180)"
    unfolding polar_def by (rule polar_diff)
  have z: "azimuth a - azimuth b = (r_lon a - r_lon b) * (pi / 180)"
    unfolding azimuth_def by (rule azimuth_diff)
  have "2 - 2 * centerDot a b \<le> (polar a - polar b)\<^sup>2 + (azimuth a - azimuth b)\<^sup>2"
    by (rule dist_sq_upper)
  also have "\<dots> \<le> (r_lat b - r_lat a)\<^sup>2 * 16 / 32400 + (r_lon a - r_lon b)\<^sup>2 * 16 / 32400"
    unfolding p z by (intro add_mono degrees_sq)
  also have "\<dots> = ((r_lat a - r_lat b)\<^sup>2 + (r_lon a - r_lon b)\<^sup>2) * 16 / 32400"
    by (simp add: power2_commute [of "r_lat a"] algebra_simps)
  also note assms(2)
  finally show "2 - 2 * centerDot a b \<le> t\<^sup>2" .
qed

lemma snow_pair_close:
  "centerDistance \<lparr>r_lat = - 70, r_lon = - 180, r_size = 0.13, r_color = ''#FFFFFF''\<rparr>
                  \<lparr>r_lat = - 75, r_lon = - 180, r_size = 0.13, r_color = ''#FFFFFF''\<rparr>
     \<le> 0.9 * (0.13 + 0.13)"
  by (rule close_in_degrees) (simp_all add: power2_eq_square)

lemma snow_continent_close:
  "centerDistance \<lparr>r_lat = 70, r_lon = 90, r_size = 0.12, r_color = ''#FFFFFF''\<rparr>
                  \<lparr>r_lat = 60, r_lon = 95, r_size = 0.20, r_color = ''#66BB6A''\<rparr>
     \<le> 0.9 * (0.12 + 0.20)"
  by (rule close_in_degrees) (simp_all add: power2_eq_square)

lemma cos_le_half:
  assumes "pi / 3 \<le> x" "x \<le> 5 * pi / 3"
  shows "cos x \<le> 1 / 2"
proof (cases "x \<le> pi")
  case True
  have "cos x \<le> cos (pi / 3)"
    using assms(1) True by (intro cos_monotone_0_pi_le) simp_all
  then show ?thesis by (simp add: cos_60)
next
  case False
  have "cos (2 * pi - x) \<le> cos (pi / 3)"
    using assms(2) False by (intro cos_monotone_0_pi_le) simp_all
  then show ?thesis by (simp add: cos_60)
qed

lemma cauchy_trig:
  fixes A B :: real
  shows "(A * cos x + B * sin x)\<^sup>2 \<le> A\<^sup>2 + B\<^sup>2"
proof -
  have "(A\<^sup>2 + B\<^sup>2) * (s\<^sup>2 + c\<^sup>2) = (A * c + B * s)\<^sup>2 + (A * s - B * c)\<^sup>2"
    for s c :: real
    by (simp add: power2_eq_square algebra_simps)
  from this [of "sin x" "cos x"]
  have "A\<^sup>2 + B\<^sup>2 = (A * cos x + B * sin x)\<^sup>2 + (A * sin x - B * cos x)\<^sup>2"
    by simp
  then show ?thesis by simp
qed

lemma deg_mono: "a \<le> b \<Longrightarrow> a * (pi / 180) \<le> b * (pi / 180)"
  by (rule mult_right_mono) simp_all

lemma le_of_sq_le:
  fixes X b :: real
  assumes "X\<^sup>2 \<le> b\<^sup>2" "0 \<le> b"
  shows "X \<le> b"
proof -
  have "\<bar>X\<bar> \<le> \<bar>b\<bar>" using assms(1) by (simp add: abs_le_square_iff)
  then show ?thesis using assms(2) by linarith
qed

lemma polar_c: "polar \<lparr>r_lat = 60, r_lon = l, r_size = s, r_color = c\<rparr> = pi / 6"
  by (simp add: polar_def)

lemma far_from_siberia:
  assumes size: "0 \<le> r_size e" "r_size e \<le> 0.2"
    and lat: "- 90 \<le> r_lat e" "r_lat e \<le> 90"
    and pos: "r_lat e \<le> 30 \<or> (- 180 \<le> r_lon e \<and> r_lon e \<le> 35)"
  shows "0.9 * (0.20 + r_size e)
     \<le> centerDistance \<lparr>r_lat = 60, r_lon = 95, r_size = 0.20, r_color = ''#66BB6A''\<rparr> e"
proof (rule far_from_dot)
  let ?c = "\<lparr>r_lat = 60, r_lon = 95, r_size = 0.20, r_color = ''#66BB6A''\<rparr>"
  let ?pe = "polar e"
  let ?d = "azimuth ?c - azimuth e"
  have pe: "0 \<le> ?pe" "?pe \<le> pi"
    using deg_mono [of 0 "90 - r_lat e"] deg_mono [of "90 - r_lat e" 180] lat
    by (simp_all add: polar_def)
  have sin_pe: "0 \<le> sin ?pe" using pe by (rule sin_ge_zero)
  have dot: "centerDot ?c e = sqrt 3 / 2 * cos ?pe + 1 / 2 * sin ?pe * cos ?d"
    by (simp add: centerDot_def polar_c cos_30 sin_30)
  have bound: "centerDot ?c e \<le> 1169 / 1250"
    using pos
  proof
    assume "r_lat e \<le> 30"
    then have lo: "pi / 3 \<le> ?pe"
      using deg_mono [of 60 "90 - r_lat e"] by (simp add: polar_def)
    have "1 / 2 * sin ?pe * cos ?d \<le> 1 / 2 * sin ?pe * 1"
      using sin_pe by (intro mult_left_mono) simp_all
    then have "centerDot ?c e \<le> cos (pi / 6) * cos ?pe + sin (pi / 6) * sin ?pe"
      unfolding dot by (simp add: cos_30 sin_30)
    also have "\<dots> = cos (?pe - pi / 6)" by (simp add: cos_diff mult.commute)
    also have "\<dots> \<le> cos (pi / 6)"
      using lo pe by (intro cos_monotone_0_pi_le) simp_all
    also have "\<dots> = sqrt 3 / 2" by (rule cos_30)
    also have "\<dots> \<le> 1169 / 1250"
    proof -
      have "sqrt 3 \<le> 1169 / 625" by (rule real_le_lsqrt) (simp_all add: power2_eq_square)
      then show ?thesis by simp
    qed
    finally show ?thesis .
  next
    assume lon: "- 180 \<le> r_lon e \<and> r_lon e \<le> 35"
    have d: "?d = (95 - r_lon e) * (pi / 180)"
      unfolding azimuth_def by (simp add: algebra_simps)
    have "pi / 3 \<le> ?d" "?d \<le> 5 * pi / 3"
      using lon deg_mono [of 60 "95 - r_lon e"] deg_mono [of "95 - r_lon e" 300]
      unfolding d by simp_all
    then have "cos ?d \<le> 1 / 2" by (rule cos_le_half)
    then have "1 / 2 * sin ?pe * cos ?d \<le> 1 / 2 * sin ?pe * (1 / 2)"
      using sin_pe by (intro mult_left_mono) simp_all
    then have le: "centerDot ?c e \<le> sqrt 3 / 2 * cos ?pe + 1 / 4 * sin ?pe"
      unfolding dot by simp
    have "(sqrt 3 / 2 * cos ?pe + 1 / 4 * sin ?pe)\<^sup>2 \<le> (sqrt 3 / 2)\<^sup>2 + (1 / 4)\<^sup>2"
      by (rule cauchy_trig)
    also have "\<dots> = 13 / 16" by (simp add: power2_eq_square)
    also have "\<dots> \<le> (1169 / 1250)\<^sup>2" by (simp add: power2_eq_square)
    finally have "sqrt 3 / 2 * cos ?pe + 1 / 4 * sin ?pe \<le> 1169 / 1250"
      by (rule le_of_sq_le) simp
    with le show ?thesis by linarith
  qed
  have t: "0 \<le> 0.9 * (0.20 + r_size e)" "0.9 * (0.20 + r_size e) \<le> 0.36"
    using size by simp_all
  then have "(0.9 * (0.20 + r_size e))\<^sup>2 \<le> 0.36\<^sup>2"
    by (intro power_mono)
  also have "\<dots> \<le> 2 - 2 * centerDot ?c e"
    using bound by (simp add: power2_eq_square)
  finally show "(0.9 * (0.20 + r_size e))\<^sup>2 \<le> 2 - 2 * centerDot ?c e" .
qed

lemma filterLoop_set: "set (filterLoop acc cs) \<subseteq> set acc \<union> set cs"
proof (induction cs arbitrary: acc)
  case Nil
  show ?case by simp
next
  case (Cons c cs)
  show ?case
  proof (cases "overlapsExisting c acc")
    case True
    then show ?thesis using Cons.IH [of acc] by auto
  next
    case False
    then show ?thesis using Cons.IH [of "acc @ [c]"] by auto
  qed
qed

lemma accepted_if_clear:
  assumes "cs = pre @ c # post"
    and "\<forall>e\<in>set pre. 0.9 * (r_size c + r_size e) \<le> centerDistance c e"
  shows "c \<in> set (filterContinents cs)"
proof -
  let ?acc = "filterLoop [] pre"
  have "set ?acc \<subseteq> set pre" using filterLoop_set [of "[]" pre] by simp
  then have "\<not> overlapsExisting c ?acc"
    using assms(2) by (auto simp: overlapsExisting_iff not_less)
  then have "filterContinents cs = filterLoop (?acc @ [c]) post"
    by (simp add: filterContinents_def assms(1) filterLoop_append)
  moreover have "prefix (?acc @ [c]) (filterLoop (?acc @ [c]) post)"
    by (rule filterLoop_prefix)
  ultimately show ?thesis by (auto simp: prefix_def)
qed

section \<open>Properties of the rendered regions\<close>

lemma snow_north_member:
  "\<lparr>r_lat = 70, r_lon = 90, r_size = 0.12, r_color = ''#FFFFFF''\<rparr> \<in> set snowHexagons"
  by (simp add: snowHexagons_def)

lemma snow_extra_members:
  "\<lparr>r_lat = - 70, r_lon = - 180, r_size = 0.13, r_color = ''#FFFFFF''\<rparr> \<in> set snowHexagons"
  "\<lparr>r_lat = - 75, r_lon = - 180, r_size = 0.13, r_color = ''#FFFFFF''\<rparr> \<in> set snowHexagons"
  by (simp_all add: snowHexagons_def)

lemma southLonLoop_empty: "southLonLoop (- 180) = []"
  by simp

lemma allContinents_length: "length allContinents = 360"
  by (simp add: allContinents_def)

lemma allContinents_67:
  "allContinents ! 67 = \<lparr>r_lat = 60, r_lon = 95, r_size = 0.20, r_color = ''#66BB6A''\<rparr>"
  by (simp add: allContinents_def)

lemma allContinents_before_67:
  "\<forall>e\<in>set (take 67 allContinents).
     0 \<le> r_size e \<and> r_size e \<le> 0.2 \<and> - 90 \<le> r_lat e \<and> r_lat e \<le> 90
     \<and> (r_lat e \<le> 30 \<or> (- 180 \<le> r_lon e \<and> r_lon e \<le> 35))"
  by (simp add: allContinents_def)

lemma siberia_accepted:
  "\<lparr>r_lat = 60, r_lon = 95, r_size = 0.20, r_color = ''#66BB6A''\<rparr> \<in> set continents"
proof -
  let ?c = "\<lparr>r_lat = 60, r_lon = 95, r_size = 0.20, r_color = ''#66BB6A''\<rparr>"
  have "allContinents = take 67 allContinents @ allContinents ! 67 # drop (Suc 67) allContinents"
    by (rule id_take_nth_drop) (simp add: allContinents_length)
  then have split: "allContinents = take 67 allContinents @ ?c # drop (Suc 67) allContinents"
    unfolding allContinents_67 .
  have "\<forall>e\<in>set (take 67 allContinents). 0.9 * (r_size ?c + r_size e) \<le> centerDistance ?c e"
  proof
    fix e assume "e \<in> set (take 67 allContinents)"
    with allContinents_before_67 have
      "0 \<le> r_size e" "r_size e \<le> 0.2" "- 90 \<le> r_lat e" "r_lat e \<le> 90"
      "r_lat e \<le> 30 \<or> (- 180 \<le> r_lon e \<and> r_lon e \<le> 35)"
      by blast+
    then have "0.9 * (0.20 + r_size e) \<le> centerDistance ?c e"
      by (rule far_from_siberia)
    then show "0.9 * (r_size ?c + r_size e) \<le> centerDistance ?c e" by simp
  qed
  with split show ?thesis unfolding continents_def by (rule accepted_if_clear)
qed

lemma close_strict:
  assumes "0 \<le> t" "t < u"
    and "((r_lat a - r_lat b)\<^sup>2 + (r_lon a - r_lon b)\<^sup>2) * 16 / 32400 \<le> t\<^sup>2"
  shows "centerDistance a b < u"
  using close_in_degrees [OF assms(1,3)] assms(2) by linarith

lemma snow_pair_too_close:
  "centerDistance \<lparr>r_lat = - 70, r_lon = - 180, r_size = 0.13, r_color = ''#FFFFFF''\<rparr>
                  \<lparr>r_lat = - 75, r_lon = - 180, r_size = 0.13, r_color = ''#FFFFFF''\<rparr>
     < 0.9 * (0.13 + 0.13)"
  by (rule close_strict [where t = "0.2"]) (simp_all add: power2_eq_square)

lemma snow_continent_too_close:
  "centerDistance \<lparr>r_lat = 70, r_lon = 90, r_size = 0.12, r_color = ''#FFFFFF''\<rparr>
                  \<lparr>r_lat = 60, r_lon = 95, r_size = 0.20, r_color = ''#66BB6A''\<rparr>
     < 0.9 * (0.12 + 0.20)"
  by (rule close_strict [where t = "0.25"]) (simp_all add: power2_eq_square)

text \<open>
  C10. The rendered regions are the snow hexagons followed by the filtered continents;
  the snow hexagons are produced by the fixed loops and never pass through the filter.
  The rendered set is not pairwise non-overlapping: there are two different snow hexagons
  (latitudes -70 and -75 at longitude -180), and a snow hexagon and an accepted continent
  (the snow hexagon at latitude 70, longitude 90 and the continent at latitude 60,
  longitude 95), whose projected centres are at a distance less than (so at most)
  \<open>0.9\<close> times the sum of their sizes.
\<close>

theorem rendered_regions_overlap:
  "renderedRegions = snowHexagons @ filterContinents allContinents
   \<and> (\<exists>a b. a \<in> set snowHexagons \<and> b \<in> set snowHexagons \<and> a \<noteq> b
          \<and> centerDistance a b < 0.9 * (r_size a + r_size b))
   \<and> (\<exists>s c. s \<in> set snowHexagons \<and> c \<in> set (filterContinents allContinents)
          \<and> centerDistance s c < 0.9 * (r_size s + r_size c))
   \<and> (\<exists>i j. i < length renderedRegions \<and> j < length renderedRegions \<and> i \<noteq> j
          \<and> centerDistance (renderedRegions ! i) (renderedRegions ! j)
              < 0.9 * (r_size (renderedRegions ! i) + r_size (renderedRegions ! j)))"
proof (intro conjI)
  let ?a = "\<lparr>r_lat = - 70, r_lon = - 180, r_size = 0.13, r_color = ''#FFFFFF''\<rparr>"
  let ?b = "\<lparr>r_lat = - 75, r_lon = - 180, r_size = 0.13, r_color = ''#FFFFFF''\<rparr>"
  let ?s = "\<lparr>r_lat = 70, r_lon = 90, r_size = 0.12, r_color = ''#FFFFFF''\<rparr>"
  let ?c = "\<lparr>r_lat = 60, r_lon = 95, r_size = 0.20, r_color = ''#66BB6A''\<rparr>"
  show r: "renderedRegions = snowHexagons @ filterContinents allContinents"
    by (simp add: renderedRegions_def continents_def)
  have ab: "?a \<in> set snowHexagons" "?b \<in> set snowHexagons" "?a \<noteq> ?b"
    "centerDistance ?a ?b < 0.9 * (r_size ?a + r_size ?b)"
    using snow_extra_members snow_pair_too_close by simp_all
  then show "\<exists>a b. a \<in> set snowHexagons \<and> b \<in> set snowHexagons \<and> a \<noteq> b
          \<and> centerDistance a b < 0.9 * (r_size a + r_size b)"
    by blast
  have "?s \<in> set snowHexagons" "?c \<in> set (filterContinents allContinents)"
    "centerDistance ?s ?c < 0.9 * (r_size ?s + r_size ?c)"
    using snow_north_member siberia_accepted snow_continent_too_close
    by (simp_all add: continents_def)
  then show "\<exists>s c. s \<in> set snowHexagons \<and> c \<in> set (filterContinents allContinents)
          \<and> centerDistance s c < 0.9 * (r_size s + r_size c)"
    by blast
  from ab(1,2) obtain i j where ij: "i < length snowHexagons" "snowHexagons ! i = ?a"
    "j < length snowHexagons" "snowHexagons ! j = ?b"
    by (auto simp only: in_set_conv_nth)
  have "i \<noteq> j" using ij(2,4) ab(3) by auto
  moreover have "renderedRegions ! i = ?a" "renderedRegions ! j = ?b"
    using ij by (simp_all add: renderedRegions_def nth_append)
  moreover have "i < length renderedRegions" "j < length renderedRegions"
    using ij(1,3) by (simp_all add: renderedRegions_def)
  ultimately show "\<exists>i j. i < length renderedRegions \<and> j < length renderedRegions \<and> i \<noteq> j
          \<and> centerDistance (renderedRegions ! i) (renderedRegions ! j)
              < 0.9 * (r_size (renderedRegions ! i) + r_size (renderedRegions ! j))"
    using ab(4) by metis
qed

end
